theory Spec2Isabelle
  imports Main
begin

section \<open>JavaScript strings\<close>

text \<open>
  A JavaScript string is modelled as a \<^typ>\<open>string\<close>: one \<^typ>\<open>char\<close> per code
  unit, for the code units below 256. The character classes are those of the
  regular expressions of the scripts (no \<open>u\<close> or \<open>i\<close> flag): \<open>\s\<close> and
  \<open>trim\<close> share the white space of the language (tab, line feed, vertical tab,
  form feed, carriage return, space, no-break space in this range), \<open>\w\<close> is
  \<open>[A-Za-z0-9_]\<close> and \<open>\d\<close> is \<open>[0-9]\<close>.
\<close>

definition is_space :: "char \<Rightarrow> bool" where
  "is_space c \<longleftrightarrow> c = CHR 0x09 \<or> c = CHR 0x0A \<or> c = CHR 0x0B \<or> c = CHR 0x0C
     \<or> c = CHR 0x0D \<or> c = CHR 0x20 \<or> c = CHR 0xA0"

definition is_digit :: "char \<Rightarrow> bool" where
  "is_digit c \<longleftrightarrow> (let n = (of_char c :: nat) in 48 \<le> n \<and> n \<le> 57)"

definition is_lower :: "char \<Rightarrow> bool" where
  "is_lower c \<longleftrightarrow> (let n = (of_char c :: nat) in 97 \<le> n \<and> n \<le> 122)"

definition is_upper :: "char \<Rightarrow> bool" where
  "is_upper c \<longleftrightarrow> (let n = (of_char c :: nat) in 65 \<le> n \<and> n \<le> 90)"

definition is_alnum :: "char \<Rightarrow> bool" where
  "is_alnum c \<longleftrightarrow> is_lower c \<or> is_upper c \<or> is_digit c"

definition is_word :: "char \<Rightarrow> bool" where
  "is_word c \<longleftrightarrow> is_alnum c \<or> c = CHR ''_''"

text \<open>\<open>String.prototype.trim\<close>.\<close>

definition trim :: "string \<Rightarrow> string" where
  "trim s = rev (dropWhile is_space (rev (dropWhile is_space s)))"

text \<open>\<open>s.startsWith(p)\<close> and \<open>s.includes(p)\<close> (\<open>includes\<close> is a keyword of Isabelle, hence the suffix).\<close>

fun startsWith :: "string \<Rightarrow> string \<Rightarrow> bool" where
  "startsWith s [] = True"
| "startsWith [] (p # ps) = False"
| "startsWith (c # cs) (p # ps) = (c = p \<and> startsWith cs ps)"

fun includes_str :: "string \<Rightarrow> string \<Rightarrow> bool" where
  "includes_str [] p = (p = [])"
| "includes_str (c # cs) p = (startsWith (c # cs) p \<or> includes_str cs p)"

text \<open>
  \<open>s.split(sep)\<close> for a separator of one character: the pieces between the
  separators, the empty string giving one empty piece.
\<close>

fun split :: "string \<Rightarrow> char \<Rightarrow> string list" where
  "split [] sep = [[]]"
| "split (c # cs) sep =
     (if c = sep then [] # split cs sep
      else (case split cs sep of
              [] \<Rightarrow> [[c]]
            | w # ws \<Rightarrow> (c # w) # ws))"

text \<open>Decimal rendering of a natural number, as a template literal prints a count or an index.\<close>

definition digit_char :: "nat \<Rightarrow> char" where
  "digit_char d = char_of (48 + d)"

function string_of_nat :: "nat \<Rightarrow> string" where
  "string_of_nat n =
     (if n < 10 then [digit_char n] else string_of_nat (n div 10) @ [digit_char (n mod 10)])"
  by pat_completeness auto
termination
  by (relation "measure id") auto

declare string_of_nat.simps [simp del]

section \<open>Style validator\<close>

text \<open>The issue objects pushed by \<open>validateCSS\<close> and returned by \<open>validateFile\<close>.\<close>

record ValidationIssue =
  line :: nat
  rule :: string
  message :: string
  content :: string

text \<open>
  The result object of a \<open>validate\<close> function, and the two shapes of the entries of
  \<open>validationRules\<close>: an entry with \<open>pattern\<close> and \<open>message\<close>, or an entry with
  \<open>validate\<close> only.
\<close>

record Verdict =
  valid :: bool
  verdict_message :: string

datatype Rule =
    PatternRule "string \<Rightarrow> bool" string
  | ValidateRule "string \<Rightarrow> Verdict"

fun rule_validate :: "Rule \<Rightarrow> (string \<Rightarrow> Verdict) option" where
  "rule_validate (PatternRule p m) = None"
| "rule_validate (ValidateRule v) = Some v"

text \<open>\<open>/^[a-z][a-zA-Z0-9]*$/.test(s)\<close>\<close>

definition classNaming_pattern :: "string \<Rightarrow> bool" where
  "classNaming_pattern s = (case s of [] \<Rightarrow> False | c # cs \<Rightarrow> is_lower c \<and> list_all is_alnum cs)"

text \<open>\<open>/^[^#]*$/.test(s)\<close>, \<open>/^[^*]*$/.test(s)\<close> and \<open>/^[^!]*$/.test(s)\<close>\<close>

definition noIds_pattern :: "string \<Rightarrow> bool" where
  "noIds_pattern s = list_all (\<lambda>c. c \<noteq> CHR ''#'') s"

definition noUniversal_pattern :: "string \<Rightarrow> bool" where
  "noUniversal_pattern s = list_all (\<lambda>c. c \<noteq> CHR ''*'') s"

definition noImportant_pattern :: "string \<Rightarrow> bool" where
  "noImportant_pattern s = list_all (\<lambda>c. c \<noteq> CHR ''!'') s"

text \<open>
  The regular expressions \<open>/\b\d+px\b/g\<close> and \<open>/\b\d+(rem|em)\b/g\<close>, matched at the
  head of a string whose preceding character is known. \<open>word_boundary\<close> is \<open>\b\<close>
  between two neighbours (\<open>None\<close> at either end of the input).
  \<open>match_number_unit\<close> gives the text left after the match. The digits are taken
  greedily (giving one back leaves a digit where the unit must start) and the
  alternatives of the unit are tried in order.
\<close>

definition word_boundary :: "char option \<Rightarrow> char option \<Rightarrow> bool" where
  "word_boundary prev nxt \<longleftrightarrow>
     (case prev of None \<Rightarrow> False | Some c \<Rightarrow> is_word c)
       \<noteq> (case nxt of None \<Rightarrow> False | Some c \<Rightarrow> is_word c)"

fun match_unit :: "string list \<Rightarrow> string \<Rightarrow> (string \<times> string) option" where
  "match_unit [] s = None"
| "match_unit (u # us) s =
     (if startsWith s u
         \<and> word_boundary (if u = [] then None else Some (last u))
              (case drop (length u) s of [] \<Rightarrow> None | c # cs \<Rightarrow> Some c)
      then Some (u, drop (length u) s)
      else match_unit us s)"

definition match_number_unit ::
  "string list \<Rightarrow> char option \<Rightarrow> string \<Rightarrow> (string \<times> string) option" where
  "match_number_unit units prev s =
     (if word_boundary prev (case s of [] \<Rightarrow> None | c # cs \<Rightarrow> Some c)
         \<and> takeWhile is_digit s \<noteq> []
      then (case match_unit units (dropWhile is_digit s) of
              None \<Rightarrow> None
            | Some (u, rest) \<Rightarrow> Some (takeWhile is_digit s @ u, rest))
      else None)"

text \<open>
  \<open>(css.match(re) || []).length\<close> for a global expression: the matches are found
  from left to right, each search starting where the match before it ended.
\<close>

function count_matches :: "string list \<Rightarrow> char option \<Rightarrow> string \<Rightarrow> nat" where
  "count_matches units prev [] = 0"
| "count_matches units prev (c # cs) =
     (case match_number_unit units prev (c # cs) of
        None \<Rightarrow> count_matches units (Some c) cs
      | Some (m, rest) \<Rightarrow> Suc (count_matches units (Some (last m)) rest))"
  by pat_completeness auto
termination
proof (relation "measure (\<lambda>(units, prev, s). length s)")
  show "wf (measure (\<lambda>(units, prev, s). length s))"
    by simp
next
  fix units :: "string list" and prev :: "char option" and c :: char and cs :: string
  show "((units, Some c, cs), (units, prev, c # cs)) \<in> measure (\<lambda>(units, prev, s). length s)"
    by simp
next
  fix units :: "string list" and prev :: "char option" and c :: char and cs :: string
    and matched :: "string \<times> string" and m rest :: string
  assume found: "match_number_unit units prev (c # cs) = Some matched" and "(m, rest) = matched"
  then have some: "match_number_unit units prev (c # cs) = Some (m, rest)"
    by simp
  have unit_length: "match_unit us s = Some (u, r) \<Longrightarrow> length r \<le> length s"
    for us s u r
    by (induction us) (auto split: if_splits)
  from some have digits: "takeWhile is_digit (c # cs) \<noteq> []"
    by (auto simp: match_number_unit_def split: if_splits)
  from some obtain u where "match_unit units (dropWhile is_digit (c # cs)) = Some (u, rest)"
    by (auto simp: match_number_unit_def split: if_splits option.splits)
  then have "length rest \<le> length (dropWhile is_digit (c # cs))"
    by (rule unit_length)
  moreover have "length (takeWhile is_digit (c # cs)) + length (dropWhile is_digit (c # cs))
      = length (c # cs)"
    by (metis length_append takeWhile_dropWhile_id)
  moreover from digits have "0 < length (takeWhile is_digit (c # cs))"
    by simp
  ultimately have "length rest < length (c # cs)"
    by linarith
  then show "((units, Some (last m), rest), (units, prev, c # cs))
      \<in> measure (\<lambda>(units, prev, s). length s)"
    by simp
qed

text \<open>\<open>validationRules.preferRelativeUnits.validate\<close>\<close>

definition preferRelativeUnits_validate :: "string \<Rightarrow> Verdict" where
  "preferRelativeUnits_validate css =
     (let pxMatches = count_matches [''px''] None css;
          remEmMatches = count_matches [''rem'', ''em''] None css
      in \<lparr> valid = (remEmMatches > 0 \<or> pxMatches = 0),
           verdict_message = ''Found '' @ string_of_nat pxMatches
             @ '' px units. Consider using rem/em for better accessibility'' \<rparr>)"

text \<open>
  The object \<open>validationRules\<close>, as the list of its entries in the order of
  \<open>Object.entries\<close> (the order in which the keys are written).
\<close>

definition classNaming :: Rule where
  "classNaming = PatternRule classNaming_pattern
     ''Class names should use camelCase starting with a lowercase letter''"

definition noIds :: Rule where
  "noIds = PatternRule noIds_pattern ''Avoid using ID selectors (#) in CSS modules''"

definition noUniversal :: Rule where
  "noUniversal = PatternRule noUniversal_pattern
     ''Avoid using universal selector (*) in CSS modules''"

definition preferRelativeUnits :: Rule where
  "preferRelativeUnits = ValidateRule preferRelativeUnits_validate"

definition noImportant :: Rule where
  "noImportant = PatternRule noImportant_pattern ''Avoid using !important in CSS modules''"

definition validationRules :: "(string \<times> Rule) list" where
  "validationRules =
     [(''classNaming'', classNaming),
      (''noIds'', noIds),
      (''noUniversal'', noUniversal),
      (''preferRelativeUnits'', preferRelativeUnits),
      (''noImportant'', noImportant)]"

text \<open>
  The inner loop of \<open>validateCSS\<close> over the entries of \<open>validationRules\<close>: an
  entry with a pattern that the selector fails pushes one issue.
\<close>

fun selector_rules ::
  "nat \<Rightarrow> string \<Rightarrow> (string \<times> Rule) list \<Rightarrow> ValidationIssue list \<Rightarrow> ValidationIssue list" where
  "selector_rules lineNum selector [] issues = issues"
| "selector_rules lineNum selector ((ruleName, r) # rules) issues =
     selector_rules lineNum selector rules
       (case r of
          PatternRule pattern msg \<Rightarrow>
            if \<not> pattern selector
            then issues @ [\<lparr> line = lineNum, rule = ruleName, message = msg, content = selector \<rparr>]
            else issues
        | ValidateRule v \<Rightarrow> issues)"

text \<open>
  The callback of \<open>lines.forEach\<close>: the issues so far, the line and its index go in,
  the issues after the line come out. A blank line or a comment returns at once.
\<close>

definition validate_line :: "ValidationIssue list \<Rightarrow> string \<Rightarrow> nat \<Rightarrow> ValidationIssue list" where
  "validate_line issues ln index =
     (let lineNum = index + 1;
          trimmed = trim ln
      in if trimmed = [] \<or> startsWith trimmed ''/*'' \<or> startsWith trimmed ''//''
         then issues
         else
           let issues1 =
             (if includes_str trimmed ''{''
              then
                let selector = trim (hd (split trimmed CHR ''{''));
                    pushed = selector_rules lineNum selector validationRules issues
                in (case rule_validate noImportant of
                      None \<Rightarrow> pushed
                    | Some validate \<Rightarrow>
                        let result = validate trimmed
                        in if \<not> valid result
                           then pushed @ [\<lparr> line = lineNum, rule = ''noImportant'',
                                   message = verdict_message result, content = trimmed \<rparr>]
                           else pushed)
              else issues)
           in (case rule_validate preferRelativeUnits of
                 None \<Rightarrow> issues1
               | Some validate \<Rightarrow>
                   let result = validate trimmed
                   in if \<not> valid result
                      then issues1 @ [\<lparr> line = lineNum, rule = ''preferRelativeUnits'',
                              message = verdict_message result, content = trimmed \<rparr>]
                      else issues1))"

fun forEach_line :: "ValidationIssue list \<Rightarrow> string list \<Rightarrow> nat \<Rightarrow> ValidationIssue list" where
  "forEach_line issues [] index = issues"
| "forEach_line issues (ln # lns) index = forEach_line (validate_line issues ln index) lns (Suc index)"

definition validateCSS :: "string \<Rightarrow> string \<Rightarrow> ValidationIssue list" where
  "validateCSS css filePath = forEach_line [] (split css CHR 0x0A) 0"

text \<open>
  \<open>validateFile\<close>. The file system is the function \<open>readFileSync\<close>, which gives the
  content of a path or the message of the error it throws.
\<close>

definition validateFile :: "(string \<Rightarrow> string + string) \<Rightarrow> string \<Rightarrow> ValidationIssue list" where
  "validateFile readFileSync filePath =
     (case readFileSync filePath of
        Inr css \<Rightarrow> validateCSS css filePath
      | Inl error_message \<Rightarrow>
          [\<lparr> line = 0, rule = ''fileError'',
             message = ''Could not read file: '' @ error_message, content = [] \<rparr>])"

section \<open>Type generator\<close>

subsection \<open>JavaScript values\<close>

text \<open>
  The values that \<open>JSON.parse\<close> builds, and \<open>undefined\<close> for what a read of a
  missing property gives. An object is the list of its own properties in the
  order in which \<open>Object.entries\<close> lists them (its keys are distinct). A
  number is carried by its decimal rendering, the text that a template literal
  prints for it: zero is \<open>''0''\<close>, and no number of a JSON text is \<open>NaN\<close>.
\<close>

datatype js =
    JUndefined
  | JNull
  | JBool bool
  | JNum string
  | JStr string
  | JArr "js list"
  | JObj "(string \<times> js) list"

text \<open>
  What the scripts throw: \<open>new Error(message)\<close>, a \<open>TypeError\<close> of the engine, or the
  error of a call to \<open>fs\<close>, under its code (\<open>ENOENT\<close>, \<open>EACCES\<close>, ...).
\<close>

datatype error = Error string | TypeError | SystemError string

text \<open>
  \<open>v.k\<close> for the keys the script reads (\<open>properties\<close>, \<open>required\<close>, \<open>type\<close>,
  \<open>items\<close>, \<open>additionalProperties\<close>, \<open>description\<close>): no prototype has a property
  of one of these names, so the read gives an own property of an object and
  \<open>undefined\<close> otherwise. Reading a property of \<open>null\<close> or \<open>undefined\<close> throws.
\<close>

fun get :: "js \<Rightarrow> string \<Rightarrow> error + js" where
  "get JUndefined k = Inl TypeError"
| "get JNull k = Inl TypeError"
| "get (JObj kvs) k = Inr (case map_of kvs k of None \<Rightarrow> JUndefined | Some v \<Rightarrow> v)"
| "get v k = Inr JUndefined"

text \<open>The truth value of a value in a condition.\<close>

fun truthy :: "js \<Rightarrow> bool" where
  "truthy JUndefined = False"
| "truthy JNull = False"
| "truthy (JBool b) = b"
| "truthy (JNum r) = (r \<noteq> ''0'')"
| "truthy (JStr s) = (s \<noteq> [])"
| "truthy (JArr xs) = True"
| "truthy (JObj kvs) = True"

text \<open>
  The string that a template literal prints for a value. An array prints its
  elements joined by commas, \<open>null\<close> and \<open>undefined\<close> elements as nothing. An
  object prints as \<open>[object Object]\<close>, unless it has an own property \<open>toString\<close>:
  that property is no function, nor is the result of \<open>valueOf\<close> a primitive, and
  the conversion throws.
\<close>

fun to_string :: "js \<Rightarrow> error + string"
  and join_elements :: "js list \<Rightarrow> error + string" where
  "to_string JUndefined = Inr ''undefined''"
| "to_string JNull = Inr ''null''"
| "to_string (JBool b) = Inr (if b then ''true'' else ''false'')"
| "to_string (JNum r) = Inr r"
| "to_string (JStr s) = Inr s"
| "to_string (JArr xs) = join_elements xs"
| "to_string (JObj kvs) =
     (case map_of kvs ''toString'' of
        None \<Rightarrow> Inr ''[object Object]''
      | Some v \<Rightarrow> Inl TypeError)"
| "join_elements [] = Inr []"
| "join_elements (x # xs) =
     (case (case x of JUndefined \<Rightarrow> Inr [] | JNull \<Rightarrow> Inr [] | _ \<Rightarrow> to_string x) of
        Inl e \<Rightarrow> Inl e
      | Inr s \<Rightarrow>
          (case xs of
             [] \<Rightarrow> Inr s
           | y # ys \<Rightarrow>
               (case join_elements xs of
                  Inl e \<Rightarrow> Inl e
                | Inr r \<Rightarrow> Inr (s @ '','' @ r))))"

text \<open>
  \<open>Object.entries(v)\<close> of a truthy value: the own properties of an object, the
  elements of an array and the characters of a string under their indices,
  nothing for a number or \<open>true\<close>.
\<close>

fun entries :: "js \<Rightarrow> (string \<times> js) list" where
  "entries (JObj kvs) = kvs"
| "entries (JArr xs) = map (\<lambda>(i, x). (string_of_nat i, x)) (List.enumerate 0 xs)"
| "entries (JStr s) = map (\<lambda>(i, c). (string_of_nat i, JStr [c])) (List.enumerate 0 s)"
| "entries v = []"

text \<open>\<open>xs.join(sep)\<close> of an array of strings.\<close>

fun join :: "string list \<Rightarrow> string \<Rightarrow> string" where
  "join [] sep = []"
| "join [x] sep = x"
| "join (x # y # ys) sep = x @ sep @ join (y # ys) sep"

subsection \<open>\<open>generateTypeScriptTypes\<close>\<close>

text \<open>
  The interfaces \<open>Property\<close> and \<open>Schema\<close>. The description is whatever value the
  caller stored; \<open>interfaces\<close> may be missing.
\<close>

record Property =
  name :: string
  type :: string
  required :: bool
  description :: js

record Schema =
  schema_name :: string
  properties :: "Property list"
  interfaces :: "string list option"

text \<open>The callback of \<open>properties.map\<close>: the declaration of one property.\<close>

definition property_definition :: "Property \<Rightarrow> error + string" where
  \<open>property_definition prop =
     (let optional = (if required prop then [] else ''?'')
      in case (if truthy (description prop)
               then (case to_string (description prop) of
                       Inl e \<Rightarrow> Inl e
                     | Inr d \<Rightarrow> Inr (''  /** '' @ d @ '' */\<newline>''))
               else Inr [])
         of Inl e \<Rightarrow> Inl e
          | Inr comment \<Rightarrow>
              Inr (comment @ ''  '' @ name prop @ optional @ '': '' @ type prop @ '';''))\<close>

fun map_properties :: "Property list \<Rightarrow> error + string list" where
  "map_properties [] = Inr []"
| "map_properties (prop # rest) =
     (case property_definition prop of
        Inl e \<Rightarrow> Inl e
      | Inr d \<Rightarrow>
          (case map_properties rest of
             Inl e \<Rightarrow> Inl e
           | Inr ds \<Rightarrow> Inr (d # ds)))"

definition generateTypeScriptTypes :: "Schema \<Rightarrow> error + string" where
  \<open>generateTypeScriptTypes schema =
     (let interfaces = (case interfaces schema of None \<Rightarrow> [] | Some is \<Rightarrow> is);
          imports =
            (if length interfaces > 0
             then join (map (\<lambda>i. ''import { '' @ i @ '' } from \'./'' @ i @ ''\';'') interfaces)
                    ''\<newline>'' @ ''\<newline>\<newline>''
             else [])
      in case map_properties (properties schema) of
           Inl e \<Rightarrow> Inl e
         | Inr definitions \<Rightarrow>
             let props = join definitions ''\<newline>'';
                 interfaceDefinition =
                   ''export interface '' @ schema_name schema @ '' {\<newline>'' @ props @ ''\<newline>}'';
                 propsInterface =
                   ''export interface '' @ schema_name schema @ ''Props {\<newline>'' @ props
                     @ ''\<newline>}''
             in Inr (imports @ interfaceDefinition @ ''\<newline>\<newline>'' @ propsInterface
                       @ ''\<newline>''))\<close>

subsection \<open>\<open>generateFromJSON\<close>\<close>

text \<open>
  \<open>jsonSchema.required?.includes(key) || false\<close>: a missing or \<open>null\<close> list gives
  \<open>false\<close>; an array is searched for the key, a string for the key as a piece of
  it; any other value has no function \<open>includes\<close>, and the call throws.
\<close>

definition is_required :: "js \<Rightarrow> string \<Rightarrow> error + bool" where
  "is_required jsonSchema key =
     (case get jsonSchema ''required'' of
        Inl e \<Rightarrow> Inl e
      | Inr JUndefined \<Rightarrow> Inr False
      | Inr JNull \<Rightarrow> Inr False
      | Inr (JArr xs) \<Rightarrow> Inr (JStr key \<in> set xs)
      | Inr (JStr s) \<Rightarrow> Inr (includes_str s key)
      | Inr v \<Rightarrow> Inl TypeError)"

text \<open>The \<open>switch\<close> on \<open>prop.type\<close>, which compares with \<open>===\<close>.\<close>

definition tsType :: "js \<Rightarrow> error + string" where
  "tsType prop =
     (case get prop ''type'' of
        Inl e \<Rightarrow> Inl e
      | Inr t \<Rightarrow>
          if t = JStr ''string'' then Inr ''string''
          else if t = JStr ''number'' then Inr ''number''
          else if t = JStr ''boolean'' then Inr ''boolean''
          else if t = JStr ''array'' then
            (case get prop ''items'' of
               Inl e \<Rightarrow> Inl e
             | Inr items \<Rightarrow>
                 (case (case items of
                          JUndefined \<Rightarrow> Inr JUndefined
                        | JNull \<Rightarrow> Inr JUndefined
                        | _ \<Rightarrow> get items ''type'')
                  of Inl e \<Rightarrow> Inl e
                   | Inr item_type \<Rightarrow>
                       (case to_string (if truthy item_type then item_type else JStr ''any'') of
                          Inl e \<Rightarrow> Inl e
                        | Inr s \<Rightarrow> Inr (s @ ''[]''))))
          else if t = JStr ''object'' then
            (case get prop ''additionalProperties'' of
               Inl e \<Rightarrow> Inl e
             | Inr additional \<Rightarrow>
                 if truthy additional then Inr ''Record<string, any>'' else Inr ''object'')
          else Inr ''any'')"

text \<open>The loop over \<open>Object.entries(jsonSchema.properties)\<close>, pushing to \<open>properties\<close>.\<close>

fun for_entries :: "js \<Rightarrow> (string \<times> js) list \<Rightarrow> Property list \<Rightarrow> error + Property list" where
  "for_entries jsonSchema [] props = Inr props"
| "for_entries jsonSchema ((key, prop) # rest) props =
     (case is_required jsonSchema key of
        Inl e \<Rightarrow> Inl e
      | Inr req \<Rightarrow>
          (case tsType prop of
             Inl e \<Rightarrow> Inl e
           | Inr ts \<Rightarrow>
               (case get prop ''description'' of
                  Inl e \<Rightarrow> Inl e
                | Inr d \<Rightarrow>
                    for_entries jsonSchema rest
                      (props @ [\<lparr> name = key, type = ts, required = req, description = d \<rparr>]))))"

definition json_properties :: "js \<Rightarrow> error + Property list" where
  "json_properties jsonSchema =
     (case get jsonSchema ''properties'' of
        Inl e \<Rightarrow> Inl e
      | Inr ps \<Rightarrow> if truthy ps then for_entries jsonSchema (entries ps) [] else Inr [])"

definition generateFromJSON :: "js \<Rightarrow> string \<Rightarrow> error + string" where
  "generateFromJSON jsonSchema typeName =
     (case json_properties jsonSchema of
        Inl e \<Rightarrow> Inl e
      | Inr props \<Rightarrow>
          generateTypeScriptTypes
            \<lparr> schema_name = typeName, properties = props, interfaces = Some [] \<rparr>)"

subsection \<open>\<open>generateFromGraphQL\<close>\<close>

text \<open>
  \<open>line.match(/^\s*(\w+)(\!?):\s*([^\s]+)/)\<close>: the three groups of the match, if
  the line matches. Every piece is greedy, and none can give back a character
  to let a later piece match: the character after the white space is no white
  space, the one after the word is no word character, a \<open>!\<close> left unread is no
  colon.
\<close>

definition field_match :: "string \<Rightarrow> (string \<times> string \<times> string) option" where
  "field_match ln =
     (let s1 = dropWhile is_space ln;
          word = takeWhile is_word s1;
          s2 = dropWhile is_word s1;
          bang = (if startsWith s2 ''!'' then ''!'' else []);
          s3 = drop (length bang) s2
      in if word = [] then None
         else (case s3 of
                 [] \<Rightarrow> None
               | c # s4 \<Rightarrow>
                   if c \<noteq> CHR '':'' then None
                   else
                     let s5 = dropWhile is_space s4;
                         ty = takeWhile (\<lambda>c. \<not> is_space c) s5
                     in if ty = [] then None else Some (word, bang, ty)))"

text \<open>\<open>s.replace(c, '')\<close> for a pattern of one character: its first occurrence goes.\<close>

fun remove_first :: "char \<Rightarrow> string \<Rightarrow> string" where
  "remove_first c [] = []"
| "remove_first c (x # xs) = (if x = c then xs else x # remove_first c xs)"

text \<open>
  The loop over the lines, with its variables \<open>properties\<close> and \<open>inTargetType\<close>;
  \<open>break\<close> ends it with the properties found so far.
\<close>

fun for_lines :: "string \<Rightarrow> string list \<Rightarrow> bool \<Rightarrow> Property list \<Rightarrow> Property list" where
  "for_lines typeName [] inTargetType props = props"
| "for_lines typeName (ln # rest) inTargetType props =
     (if includes_str ln (''type '' @ typeName) then for_lines typeName rest True props
      else if inTargetType then
        (if includes_str ln ''}'' then props
         else if trim ln \<noteq> [] \<and> \<not> startsWith ln ''#'' then
           (case field_match ln of
              Some (word, bang, ty) \<Rightarrow>
                for_lines typeName rest inTargetType
                  (props @ [\<lparr> name = word, type = remove_first CHR ''!'' ty,
                              required = (bang = ''!''), description = JUndefined \<rparr>])
            | None \<Rightarrow> for_lines typeName rest inTargetType props)
         else for_lines typeName rest inTargetType props)
      else for_lines typeName rest inTargetType props)"

definition generateFromGraphQL :: "string \<Rightarrow> string \<Rightarrow> error + string" where
  "generateFromGraphQL schema typeName =
     (let lines = split schema CHR 0x0A;
          inType = list_ex (\<lambda>ln. includes_str ln (''type '' @ typeName)) lines
      in if \<not> inType then Inl (Error (''Type '' @ typeName @ '' not found in GraphQL schema''))
         else generateTypeScriptTypes
                \<lparr> schema_name = typeName, properties = for_lines typeName lines False [],
                  interfaces = Some [] \<rparr>)"

section \<open>Component scaffolder\<close>

subsection \<open>The templates\<close>

text \<open>
  The template literals of \<open>templates\<close> and \<open>cssTemplates\<close>, one line of the source
  per line, with the escapes of the literals read (a backslash before a backquote,
  a dollar sign or a backslash).
\<close>

definition templates_simple :: string where
  \<open>templates_simple =
       ''import React from \'react\';\<newline>''
     @ ''import styles from \'./{{ComponentName}}.module.css\';\<newline>''
     @ ''\<newline>''
     @ ''export interface {{ComponentName}}Props {\<newline>''
     @ ''  children?: React.ReactNode;\<newline>''
     @ ''  className?: string;\<newline>''
     @ ''  variant?: \'primary\' | \'secondary\';\<newline>''
     @ ''}\<newline>''
     @ ''\<newline>''
     @ ''export const {{ComponentName}}: React.FC<{{ComponentName}}Props> = ({\<newline>''
     @ ''  children,\<newline>''
     @ ''  className,\<newline>''
     @ ''  variant = \'primary'' @ [CHR 0x27] @ ''\<newline>''
     @ ''}) => {\<newline>''
     @ ''  return (\<newline>''
     @ ''    <div className={`${styles.{{componentName}}} ${styles[variant]} ${className || '' @ [CHR 0x27] @ ''\'}`}>\<newline>''
     @ ''      {children}\<newline>''
     @ ''    </div>\<newline>''
     @ ''  );\<newline>''
     @ ''};\<newline>''
     @ ''\<newline>''
     @ ''export default {{ComponentName}};''\<close>

definition templates_interactive :: string where
  \<open>templates_interactive =
       ''import React, { useState, useCallback } from \'react\';\<newline>''
     @ ''import styles from \'./{{ComponentName}}.module.css\';\<newline>''
     @ ''\<newline>''
     @ ''export interface {{ComponentName}}Props {\<newline>''
     @ ''  initialValue?: boolean;\<newline>''
     @ ''  onToggle?: (value: boolean) => void;\<newline>''
     @ ''  disabled?: boolean;\<newline>''
     @ ''  className?: string;\<newline>''
     @ ''}\<newline>''
     @ ''\<newline>''
     @ ''export const {{ComponentName}}: React.FC<{{ComponentName}}Props> = ({\<newline>''
     @ ''  initialValue = false,\<newline>''
     @ ''  onToggle,\<newline>''
     @ ''  disabled = false,\<newline>''
     @ ''  className\<newline>''
     @ ''}) => {\<newline>''
     @ ''  const [isActive, setIsActive] = useState(initialValue);\<newline>''
     @ ''\<newline>''
     @ ''  const handleToggle = useCallback(() => {\<newline>''
     @ ''    if (disabled) return;\<newline>''
     @ ''\<newline>''
     @ ''    const newValue = !isActive;\<newline>''
     @ ''    setIsActive(newValue);\<newline>''
     @ ''    onToggle?.(newValue);\<newline>''
     @ ''  }, [isActive, disabled, onToggle]);\<newline>''
     @ ''\<newline>''
     @ ''  return (\<newline>''
     @ ''    <button\<newline>''
     @ ''      className={`${styles.{{componentName}}} ${isActive ? styles.active : '' @ [CHR 0x27] @ ''\'} ${disabled ? styles.disabled : '' @ [CHR 0x27] @ ''\'} ${className || '' @ [CHR 0x27] @ ''\'}`}\<newline>''
     @ ''      onClick={handleToggle}\<newline>''
     @ ''      disabled={disabled}\<newline>''
     @ ''      type="button"\<newline>''
     @ ''    >\<newline>''
     @ ''      {isActive ? \'Active\' : \'Inactive\'}\<newline>''
     @ ''    </button>\<newline>''
     @ ''  );\<newline>''
     @ ''};\<newline>''
     @ ''\<newline>''
     @ ''export default {{ComponentName}};''\<close>

definition templates_data :: string where
  \<open>templates_data =
       ''import React, { useEffect, useState } from \'react\';\<newline>''
     @ ''import styles from \'./{{ComponentName}}.module.css\';\<newline>''
     @ ''\<newline>''
     @ ''export interface DataItem {\<newline>''
     @ ''  id: string;\<newline>''
     @ ''  name: string;\<newline>''
     @ ''  // Add other properties based on your API response\<newline>''
     @ ''}\<newline>''
     @ ''\<newline>''
     @ ''export interface {{ComponentName}}Props {\<newline>''
     @ ''  url: string;\<newline>''
     @ ''  renderItem?: (item: DataItem) => React.ReactNode;\<newline>''
     @ ''  className?: string;\<newline>''
     @ ''}\<newline>''
     @ ''\<newline>''
     @ ''export const {{ComponentName}}: React.FC<{{ComponentName}}Props> = ({\<newline>''
     @ ''  url,\<newline>''
     @ ''  renderItem,\<newline>''
     @ ''  className\<newline>''
     @ ''}) => {\<newline>''
     @ ''  const [data, setData] = useState<DataItem[]>([]);\<newline>''
     @ ''  const [loading, setLoading] = useState(true);\<newline>''
     @ ''  const [error, setError] = useState<string | null>(null);\<newline>''
     @ ''\<newline>''
     @ ''  useEffect(() => {\<newline>''
     @ ''    const fetchData = async () => {\<newline>''
     @ ''      try {\<newline>''
     @ ''        setLoading(true);\<newline>''
     @ ''        setError(null);\<newline>''
     @ ''\<newline>''
     @ ''        const response = await fetch(url);\<newline>''
     @ ''        if (!response.ok) {\<newline>''
     @ ''          throw new Error(`HTTP error! status: ${response.status}`);\<newline>''
     @ ''        }\<newline>''
     @ ''\<newline>''
     @ ''        const result = await response.json();\<newline>''
     @ ''        setData(result);\<newline>''
     @ ''      } catch (err) {\<newline>''
     @ ''        setError(err instanceof Error ? err.message : \'An error occurred\');\<newline>''
     @ ''      } finally {\<newline>''
     @ ''        setLoading(false);\<newline>''
     @ ''      }\<newline>''
     @ ''    };\<newline>''
     @ ''\<newline>''
     @ ''    fetchData();\<newline>''
     @ ''  }, [url]);\<newline>''
     @ ''\<newline>''
     @ ''  if (loading) {\<newline>''
     @ ''    return <div className={`${styles.{{componentName}}} ${styles.loading} ${className || '' @ [CHR 0x27] @ ''\'}`}>Loading...</div>;\<newline>''
     @ ''  }\<newline>''
     @ ''\<newline>''
     @ ''  if (error) {\<newline>''
     @ ''    return <div className={`${styles.{{componentName}}} ${styles.error} ${className || '' @ [CHR 0x27] @ ''\'}`}>Error: {error}</div>;\<newline>''
     @ ''  }\<newline>''
     @ ''\<newline>''
     @ ''  return (\<newline>''
     @ ''    <div className={`${styles.{{componentName}}} ${className || '' @ [CHR 0x27] @ ''\'}`}>\<newline>''
     @ ''      {data.map((item) => (\<newline>''
     @ ''        <div key={item.id} className={styles.item}>\<newline>''
     @ ''          {renderItem ? renderItem(item) : <div>{item.name}</div>}\<newline>''
     @ ''        </div>\<newline>''
     @ ''      ))}\<newline>''
     @ ''    </div>\<newline>''
     @ ''  );\<newline>''
     @ ''};\<newline>''
     @ ''\<newline>''
     @ ''export default {{ComponentName}};''\<close>

definition templates_form :: string where
  \<open>templates_form =
       ''import React, { useState, useCallback, FormEvent } from \'react\';\<newline>''
     @ ''import styles from \'./{{ComponentName}}.module.css\';\<newline>''
     @ ''\<newline>''
     @ ''export interface FormData {\<newline>''
     @ ''  email: string;\<newline>''
     @ ''  password: string;\<newline>''
     @ ''  // Add other form fields as needed\<newline>''
     @ ''}\<newline>''
     @ ''\<newline>''
     @ ''export interface FormErrors {\<newline>''
     @ ''  email?: string;\<newline>''
     @ ''  password?: string;\<newline>''
     @ ''}\<newline>''
     @ ''\<newline>''
     @ ''export interface {{ComponentName}}Props {\<newline>''
     @ ''  onSubmit: (data: FormData) => Promise<void>;\<newline>''
     @ ''  initialValues?: Partial<FormData>;\<newline>''
     @ ''  submitButtonText?: string;\<newline>''
     @ ''  className?: string;\<newline>''
     @ ''}\<newline>''
     @ ''\<newline>''
     @ ''export const {{ComponentName}}: React.FC<{{ComponentName}}Props> = ({\<newline>''
     @ ''  onSubmit,\<newline>''
     @ ''  initialValues,\<newline>''
     @ ''  submitButtonText = \'Submit\',\<newline>''
     @ ''  className\<newline>''
     @ ''}) => {\<newline>''
     @ ''  const [formData, setFormData] = useState<FormData>({\<newline>''
     @ ''    email: initialValues?.email || '' @ [CHR 0x27] @ ''\',\<newline>''
     @ ''    password: initialValues?.password || '' @ [CHR 0x27] @ [CHR 0x27] @ ''\<newline>''
     @ ''  });\<newline>''
     @ ''\<newline>''
     @ ''  const [errors, setErrors] = useState<FormErrors>({});\<newline>''
     @ ''  const [isSubmitting, setIsSubmitting] = useState(false);\<newline>''
     @ ''\<newline>''
     @ ''  const validateForm = useCallback((): boolean => {\<newline>''
     @ ''    const newErrors: FormErrors = {};\<newline>''
     @ ''\<newline>''
     @ ''    if (!formData.email) {\<newline>''
     @ ''      newErrors.email = \'Email is required\';\<newline>''
     @ ''    } else if (!/^[^'' @ [CHR 0x5C] @ ''s@]+@[^'' @ [CHR 0x5C] @ ''s@]+'' @ [CHR 0x5C] @ ''.[^'' @ [CHR 0x5C] @ ''s@]+$/.test(formData.email)) {\<newline>''
     @ ''      newErrors.email = \'Invalid email address\';\<newline>''
     @ ''    }\<newline>''
     @ ''\<newline>''
     @ ''    if (!formData.password) {\<newline>''
     @ ''      newErrors.password = \'Password is required\';\<newline>''
     @ ''    } else if (formData.password.length < 8) {\<newline>''
     @ ''      newErrors.password = \'Password must be at least 8 characters\';\<newline>''
     @ ''    }\<newline>''
     @ ''\<newline>''
     @ ''    setErrors(newErrors);\<newline>''
     @ ''    return Object.keys(newErrors).length === 0;\<newline>''
     @ ''  }, [formData]);\<newline>''
     @ ''\<newline>''
     @ ''  const handleSubmit = useCallback(async (e: FormEvent) => {\<newline>''
     @ ''    e.preventDefault();\<newline>''
     @ ''\<newline>''
     @ ''    if (!validateForm()) return;\<newline>''
     @ ''\<newline>''
     @ ''    setIsSubmitting(true);\<newline>''
     @ ''    try {\<newline>''
     @ ''      await onSubmit(formData);\<newline>''
     @ ''    } catch (error) {\<newline>''
     @ ''      console.error(\'Form submission error:\', error);\<newline>''
     @ ''    } finally {\<newline>''
     @ ''      setIsSubmitting(false);\<newline>''
     @ ''    }\<newline>''
     @ ''  }, [formData, validateForm, onSubmit]);\<newline>''
     @ ''\<newline>''
     @ ''  const handleInputChange = useCallback((field: keyof FormData) => {\<newline>''
     @ ''    return (e: React.ChangeEvent<HTMLInputElement>) => {\<newline>''
     @ ''      setFormData(prev => ({ ...prev, [field]: e.target.value }));\<newline>''
     @ ''      // Clear error when user starts typing\<newline>''
     @ ''      if (errors[field]) {\<newline>''
     @ ''        setErrors(prev => ({ ...prev, [field]: undefined }));\<newline>''
     @ ''      }\<newline>''
     @ ''    };\<newline>''
     @ ''  }, [errors]);\<newline>''
     @ ''\<newline>''
     @ ''  return (\<newline>''
     @ ''    <form onSubmit={handleSubmit} className={`${styles.{{componentName}}} ${className || '' @ [CHR 0x27] @ ''\'}`}>\<newline>''
     @ ''      <div className={styles.field}>\<newline>''
     @ ''        <label htmlFor="email" className={styles.label}>\<newline>''
     @ ''          Email\<newline>''
     @ ''        </label>\<newline>''
     @ ''        <input\<newline>''
     @ ''          id="email"\<newline>''
     @ ''          type="email"\<newline>''
     @ ''          value={formData.email}\<newline>''
     @ ''          onChange={handleInputChange(\'email\')}\<newline>''
     @ ''          className={`${styles.input} ${errors.email ? styles.error : '' @ [CHR 0x27] @ ''\'}`}\<newline>''
     @ ''          disabled={isSubmitting}\<newline>''
     @ ''        />\<newline>''
     @ ''        {errors.email && <span className={styles.errorMessage}>{errors.email}</span>}\<newline>''
     @ ''      </div>\<newline>''
     @ ''\<newline>''
     @ ''      <div className={styles.field}>\<newline>''
     @ ''        <label htmlFor="password" className={styles.label}>\<newline>''
     @ ''          Password\<newline>''
     @ ''        </label>\<newline>''
     @ ''        <input\<newline>''
     @ ''          id="password"\<newline>''
     @ ''          type="password"\<newline>''
     @ ''          value={formData.password}\<newline>''
     @ ''          onChange={handleInputChange(\'password\')}\<newline>''
     @ ''          className={`${styles.input} ${errors.password ? styles.error : '' @ [CHR 0x27] @ ''\'}`}\<newline>''
     @ ''          disabled={isSubmitting}\<newline>''
     @ ''        />\<newline>''
     @ ''        {errors.password && <span className={styles.errorMessage}>{errors.password}</span>}\<newline>''
     @ ''      </div>\<newline>''
     @ ''\<newline>''
     @ ''      <button\<newline>''
     @ ''        type="submit"\<newline>''
     @ ''        disabled={isSubmitting}\<newline>''
     @ ''        className={styles.submitButton}\<newline>''
     @ ''      >\<newline>''
     @ ''        {isSubmitting ? \'Submitting...\' : submitButtonText}\<newline>''
     @ ''      </button>\<newline>''
     @ ''    </form>\<newline>''
     @ ''  );\<newline>''
     @ ''};\<newline>''
     @ ''\<newline>''
     @ ''export default {{ComponentName}};''\<close>

definition cssTemplates_simple :: string where
  \<open>cssTemplates_simple =
       ''.{{componentName}} {\<newline>''
     @ ''  display: inline-block;\<newline>''
     @ ''  padding: 8px 16px;\<newline>''
     @ ''  border: 1px solid #ccc;\<newline>''
     @ ''  border-radius: 4px;\<newline>''
     @ ''  font-size: 14px;\<newline>''
     @ ''  cursor: pointer;\<newline>''
     @ ''  transition: all 0.2s;\<newline>''
     @ ''}\<newline>''
     @ ''\<newline>''
     @ ''.{{componentName}}:hover {\<newline>''
     @ ''  background-color: #f5f5f5;\<newline>''
     @ ''}\<newline>''
     @ ''\<newline>''
     @ ''.primary {\<newline>''
     @ ''  background-color: #007bff;\<newline>''
     @ ''  color: white;\<newline>''
     @ ''  border-color: #007bff;\<newline>''
     @ ''}\<newline>''
     @ ''\<newline>''
     @ ''.primary:hover {\<newline>''
     @ ''  background-color: #0056b3;\<newline>''
     @ ''}\<newline>''
     @ ''\<newline>''
     @ ''.secondary {\<newline>''
     @ ''  background-color: #6c757d;\<newline>''
     @ ''  color: white;\<newline>''
     @ ''  border-color: #6c757d;\<newline>''
     @ ''}\<newline>''
     @ ''\<newline>''
     @ ''.secondary:hover {\<newline>''
     @ ''  background-color: #545b62;\<newline>''
     @ ''}''\<close>

definition cssTemplates_interactive :: string where
  \<open>cssTemplates_interactive =
       ''.{{componentName}} {\<newline>''
     @ ''  padding: 8px 16px;\<newline>''
     @ ''  border: 1px solid #ccc;\<newline>''
     @ ''  border-radius: 4px;\<newline>''
     @ ''  background-color: white;\<newline>''
     @ ''  cursor: pointer;\<newline>''
     @ ''  transition: all 0.2s;\<newline>''
     @ ''  font-size: 14px;\<newline>''
     @ ''}\<newline>''
     @ ''\<newline>''
     @ ''.{{componentName}}.active {\<newline>''
     @ ''  background-color: #007bff;\<newline>''
     @ ''  color: white;\<newline>''
     @ ''  border-color: #007bff;\<newline>''
     @ ''}\<newline>''
     @ ''\<newline>''
     @ ''.{{componentName}}.disabled {\<newline>''
     @ ''  opacity: 0.6;\<newline>''
     @ ''  cursor: not-allowed;\<newline>''
     @ ''}\<newline>''
     @ ''\<newline>''
     @ ''.{{componentName}}:not(.disabled):hover {\<newline>''
     @ ''  background-color: #f5f5f5;\<newline>''
     @ ''}\<newline>''
     @ ''\<newline>''
     @ ''.{{componentName}}.active:hover {\<newline>''
     @ ''  background-color: #0056b3;\<newline>''
     @ ''}''\<close>

definition cssTemplates_data :: string where
  \<open>cssTemplates_data =
       ''.{{componentName}} {\<newline>''
     @ ''  padding: 16px;\<newline>''
     @ ''}\<newline>''
     @ ''\<newline>''
     @ ''.{{componentName}}.loading {\<newline>''
     @ ''  display: flex;\<newline>''
     @ ''  justify-content: center;\<newline>''
     @ ''  align-items: center;\<newline>''
     @ ''  height: 200px;\<newline>''
     @ ''  font-size: 16px;\<newline>''
     @ ''  color: #666;\<newline>''
     @ ''}\<newline>''
     @ ''\<newline>''
     @ ''.{{componentName}}.error {\<newline>''
     @ ''  color: #dc3545;\<newline>''
     @ ''  text-align: center;\<newline>''
     @ ''  padding: 16px;\<newline>''
     @ ''}\<newline>''
     @ ''\<newline>''
     @ ''.item {\<newline>''
     @ ''  padding: 8px 0;\<newline>''
     @ ''  border-bottom: 1px solid #eee;\<newline>''
     @ ''}\<newline>''
     @ ''\<newline>''
     @ ''.item:last-child {\<newline>''
     @ ''  border-bottom: none;\<newline>''
     @ ''}''\<close>

definition cssTemplates_form :: string where
  \<open>cssTemplates_form =
       ''.{{componentName}} {\<newline>''
     @ ''  max-width: 400px;\<newline>''
     @ ''  padding: 24px;\<newline>''
     @ ''  border: 1px solid #ddd;\<newline>''
     @ ''  border-radius: 8px;\<newline>''
     @ ''  background-color: white;\<newline>''
     @ ''}\<newline>''
     @ ''\<newline>''
     @ ''.field {\<newline>''
     @ ''  margin-bottom: 16px;\<newline>''
     @ ''}\<newline>''
     @ ''\<newline>''
     @ ''.label {\<newline>''
     @ ''  display: block;\<newline>''
     @ ''  margin-bottom: 4px;\<newline>''
     @ ''  font-weight: 500;\<newline>''
     @ ''  color: #333;\<newline>''
     @ ''}\<newline>''
     @ ''\<newline>''
     @ ''.input {\<newline>''
     @ ''  width: 100%;\<newline>''
     @ ''  padding: 8px 12px;\<newline>''
     @ ''  border: 1px solid #ccc;\<newline>''
     @ ''  border-radius: 4px;\<newline>''
     @ ''  font-size: 14px;\<newline>''
     @ ''  transition: border-color 0.2s;\<newline>''
     @ ''}\<newline>''
     @ ''\<newline>''
     @ ''.input:focus {\<newline>''
     @ ''  outline: none;\<newline>''
     @ ''  border-color: #007bff;\<newline>''
     @ ''  box-shadow: 0 0 0 2px rgba(0, 123, 255, 0.25);\<newline>''
     @ ''}\<newline>''
     @ ''\<newline>''
     @ ''.input.error {\<newline>''
     @ ''  border-color: #dc3545;\<newline>''
     @ ''}\<newline>''
     @ ''\<newline>''
     @ ''.errorMessage {\<newline>''
     @ ''  display: block;\<newline>''
     @ ''  margin-top: 4px;\<newline>''
     @ ''  color: #dc3545;\<newline>''
     @ ''  font-size: 12px;\<newline>''
     @ ''}\<newline>''
     @ ''\<newline>''
     @ ''.submitButton {\<newline>''
     @ ''  width: 100%;\<newline>''
     @ ''  padding: 10px;\<newline>''
     @ ''  background-color: #007bff;\<newline>''
     @ ''  color: white;\<newline>''
     @ ''  border: none;\<newline>''
     @ ''  border-radius: 4px;\<newline>''
     @ ''  font-size: 16px;\<newline>''
     @ ''  cursor: pointer;\<newline>''
     @ ''  transition: background-color 0.2s;\<newline>''
     @ ''}\<newline>''
     @ ''\<newline>''
     @ ''.submitButton:hover:not(:disabled) {\<newline>''
     @ ''  background-color: #0056b3;\<newline>''
     @ ''}\<newline>''
     @ ''\<newline>''
     @ ''.submitButton:disabled {\<newline>''
     @ ''  background-color: #ccc;\<newline>''
     @ ''  cursor: not-allowed;\<newline>''
     @ ''}''\<close>

text \<open>
  What \<open>templates[type]\<close> gives: the text of an own property, a member that the
  object inherits from \<open>Object.prototype\<close> (a function, or the prototype itself
  under \<open>__proto__\<close>), or \<open>undefined\<close>.
\<close>

datatype member = Own string | Inherited | Absent

definition prototype_names :: "string list" where
  "prototype_names =
     [''constructor'', ''__defineGetter__'', ''__defineSetter__'', ''hasOwnProperty'',
      ''__lookupGetter__'', ''__lookupSetter__'', ''isPrototypeOf'', ''propertyIsEnumerable'',
      ''toString'', ''valueOf'', ''__proto__'', ''toLocaleString'']"

definition templates :: "string \<Rightarrow> member" where
  "templates key =
     (if key = ''simple'' then Own templates_simple
      else if key = ''interactive'' then Own templates_interactive
      else if key = ''data'' then Own templates_data
      else if key = ''form'' then Own templates_form
      else if key \<in> set prototype_names then Inherited
      else Absent)"

definition cssTemplates :: "string \<Rightarrow> member" where
  "cssTemplates key =
     (if key = ''simple'' then Own cssTemplates_simple
      else if key = ''interactive'' then Own cssTemplates_interactive
      else if key = ''data'' then Own cssTemplates_data
      else if key = ''form'' then Own cssTemplates_form
      else if key \<in> set prototype_names then Inherited
      else Absent)"

text \<open>\<open>table[type] || table.simple\<close>: the first operand if it is truthy.\<close>

definition or_simple :: "(string \<Rightarrow> member) \<Rightarrow> string \<Rightarrow> member" where
  "or_simple table key =
     (case table key of
        Own s \<Rightarrow> if s \<noteq> [] then Own s else table ''simple''
      | Inherited \<Rightarrow> Inherited
      | Absent \<Rightarrow> table ''simple'')"

subsection \<open>Replacing the placeholders\<close>

text \<open>
  \<open>s.replace(/pattern/g, replacement)\<close> for a pattern that is a fixed text without
  groups. The replacement is a string, so its dollar patterns are read at every
  match: \<open>$$\<close> stands for one dollar sign, \<open>$&\<close> for the matched text, a dollar
  sign and a backquote for the text before the match, a dollar sign and a quote
  for the text after it; a dollar sign before anything else stands for itself,
  there being no group.
\<close>

fun substitution :: "string \<Rightarrow> string \<Rightarrow> string \<Rightarrow> string \<Rightarrow> string" where
  "substitution matched pre post [] = []"
| "substitution matched pre post [c] = [c]"
| "substitution matched pre post (c # d # rest) =
     (if c = CHR ''$'' \<and> d = CHR ''$'' then CHR ''$'' # substitution matched pre post rest
      else if c = CHR ''$'' \<and> d = CHR ''&'' then matched @ substitution matched pre post rest
      else if c = CHR ''$'' \<and> d = CHR 0x60 then pre @ substitution matched pre post rest
      else if c = CHR ''$'' \<and> d = CHR 0x27 then post @ substitution matched pre post rest
      else c # substitution matched pre post (d # rest))"

text \<open>
  The scan from left to right; \<open>seen\<close> is the text already passed, last character
  first. After a match the scan goes on behind it; the empty pattern matches
  before every character and at the end.
\<close>

function replace_from :: "string \<Rightarrow> string \<Rightarrow> string \<Rightarrow> string \<Rightarrow> string" where
  "replace_from (p # ps) replacement seen [] = []"
| "replace_from (p # ps) replacement seen (c # cs) =
     (if startsWith (c # cs) (p # ps)
      then substitution (p # ps) (rev seen) (drop (length ps) cs) replacement
             @ replace_from (p # ps) replacement (rev (p # ps) @ seen) (drop (length ps) cs)
      else c # replace_from (p # ps) replacement (c # seen) cs)"
| "replace_from [] replacement seen [] = substitution [] (rev seen) [] replacement"
| "replace_from [] replacement seen (c # cs) =
     substitution [] (rev seen) (c # cs) replacement @ c # replace_from [] replacement (c # seen) cs"
  by pat_completeness auto
termination
  by (relation "measure (\<lambda>(pattern, replacement, seen, s). length s)") auto

definition replace_all :: "string \<Rightarrow> string \<Rightarrow> string \<Rightarrow> string" where
  "replace_all s pattern replacement = replace_from pattern replacement [] s"

text \<open>\<open>s.toLowerCase()\<close> on the code units below 256.\<close>

definition lower_char :: "char \<Rightarrow> char" where
  "lower_char c =
     (let n = (of_char c :: nat)
      in if (65 \<le> n \<and> n \<le> 90) \<or> (192 \<le> n \<and> n \<le> 222 \<and> n \<noteq> 215) then char_of (n + 32) else c)"

definition toLowerCase :: "string \<Rightarrow> string" where
  "toLowerCase s = map lower_char s"

subsection \<open>\<open>createComponent\<close>\<close>

text \<open>
  The options object: each option may be missing.
\<close>

record GenerationOptions =
  type' :: "string option"
  styled :: "bool option"
  typed :: "bool option"

text \<open>
  The file system, as far as the script meets it: what \<open>fs.existsSync\<close> answers
  for a path, and for \<open>fs.mkdirSync\<close> (with \<open>recursive: true\<close>) and
  \<open>fs.writeFileSync\<close> whether the call returns (\<open>None\<close>) or throws, and with what
  code (\<open>ENOENT\<close>, \<open>EACCES\<close>, ...). The effects of a run are the calls that
  returned, in their order. The messages printed with \<open>console.log\<close> are left
  out.
\<close>

record FileSystem =
  existsSync :: "string \<Rightarrow> bool"
  mkdirSync :: "string \<Rightarrow> string option"
  writeFileSync :: "string \<Rightarrow> string \<Rightarrow> string option"

datatype fs_call = MkdirSync string | WriteFileSync string string

text \<open>
  A run so far: the calls that returned, and the error that was thrown, if one
  was. After an error nothing more is done.
\<close>

type_synonym run = "fs_call list \<times> error option"

fun throw :: "error \<Rightarrow> run \<Rightarrow> run" where
  "throw e (calls, None) = (calls, Some e)"
| "throw e (calls, Some thrown) = (calls, Some thrown)"

fun call :: "FileSystem \<Rightarrow> fs_call \<Rightarrow> run \<Rightarrow> run" where
  "call fs c (calls, Some thrown) = (calls, Some thrown)"
| "call fs c (calls, None) =
     (case (case c of
              MkdirSync dir \<Rightarrow> mkdirSync fs dir
            | WriteFileSync file data \<Rightarrow> writeFileSync fs file data)
      of None \<Rightarrow> (calls @ [c], None)
       | Some code \<Rightarrow> (calls, Some (SystemError code)))"

text \<open>
  \<open>path.join\<close> of Node on a POSIX system, with its \<open>normalize\<close> and
  \<open>normalizeString\<close>. The segments that are not empty are put
  together with slashes between them, and the result is normalised: the names
  between the slashes are taken from left to right, an empty name and \<open>.\<close> are
  dropped, \<open>..\<close> takes away the name before it, if there is one that is not \<open>..\<close>
  itself, and stays only in a relative path; a slash at the beginning and a
  slash at the end are kept.
\<close>

fun normalizeString :: "bool \<Rightarrow> string list \<Rightarrow> string list \<Rightarrow> string list" where
  "normalizeString allowAboveRoot res [] = res"
| "normalizeString allowAboveRoot res (seg # segs) =
     (if seg = [] \<or> seg = ''.'' then normalizeString allowAboveRoot res segs
      else if seg = ''..'' then
        (if res \<noteq> [] \<and> last res \<noteq> ''..''
         then normalizeString allowAboveRoot (butlast res) segs
         else if allowAboveRoot then normalizeString allowAboveRoot (res @ [''..'']) segs
         else normalizeString allowAboveRoot res segs)
      else normalizeString allowAboveRoot (res @ [seg]) segs)"

definition normalize :: "string \<Rightarrow> string" where
  "normalize path =
     (if path = [] then ''.''
      else
        let isAbsolute = (hd path = CHR ''/'');
            trailingSeparator = (last path = CHR ''/'');
            resolved = join (normalizeString (\<not> isAbsolute) [] (split path CHR ''/'')) ''/''
        in if resolved = [] then (if isAbsolute then ''/'' else if trailingSeparator then ''./'' else ''.'')
           else (if isAbsolute then ''/'' else [])
                  @ resolved @ (if trailingSeparator then ''/'' else []))"

definition path_join :: "string list \<Rightarrow> string" where
  "path_join segments =
     (let joined = join (filter (\<lambda>segment. segment \<noteq> []) segments) ''/''
      in if joined = [] then ''.'' else normalize joined)"

definition indexContent :: "bool \<Rightarrow> string \<Rightarrow> string" where
  \<open>indexContent is_typed componentName =
     (if is_typed
      then ''export { '' @ componentName @ '', type '' @ componentName @ ''Props } from \'./''
             @ componentName @ ''\';\<newline>''
           @ ''export { default } from \'./'' @ componentName @ ''\';''
      else ''export { '' @ componentName @ '' } from \'./'' @ componentName @ ''\';\<newline>''
           @ ''export { default } from \'./'' @ componentName @ ''\';'')\<close>

definition testContent :: "string \<Rightarrow> string" where
  \<open>testContent componentName =
       ''import React from \'react\';\<newline>''
     @ ''import { render, screen } from \'@testing-library/react\';\<newline>''
     @ ''import { '' @ componentName @ '' } from \'./'' @ componentName @ ''\';\<newline>''
     @ ''\<newline>''
     @ ''describe('' @ [CHR 0x27] @ componentName @ ''\', () => {\<newline>''
     @ ''  it(\'renders without crashing\', () => {\<newline>''
     @ ''    render(<'' @ componentName @ '' />);\<newline>''
     @ ''  });\<newline>''
     @ ''\<newline>''
     @ ''  it(\'applies custom className\', () => {\<newline>''
     @ ''    const { container } = render(<'' @ componentName @ '' className="custom-class" />);\<newline>''
     @ ''    expect(container.firstChild).toHaveClass(\'custom-class\');\<newline>''
     @ ''  });\<newline>''
     @ ''});''\<close>

text \<open>The two calls of \<open>replace\<close> that make the source of the component.\<close>

definition renderComponent :: "string \<Rightarrow> string \<Rightarrow> string" where
  "renderComponent template componentName =
     replace_all (replace_all template ''{{ComponentName}}'' componentName)
       ''{{componentName}}'' (toLowerCase componentName)"

text \<open>
  \<open>createComponent\<close>, for the working directory \<open>cwd\<close> and the file system \<open>fs\<close>:
  the calls that returned, and the error thrown if one is. A member that is no
  string has no \<open>replace\<close>, and calling it throws.
\<close>

definition createComponent ::
  "string \<Rightarrow> FileSystem \<Rightarrow> string \<Rightarrow> GenerationOptions \<Rightarrow> run" where
  "createComponent cwd fs componentName options =
     (let key = (case type' options of None \<Rightarrow> ''simple'' | Some t \<Rightarrow> t);
          is_styled = (case styled options of None \<Rightarrow> True | Some b \<Rightarrow> b);
          is_typed = (case typed options of None \<Rightarrow> True | Some b \<Rightarrow> b);
          componentDir = path_join [cwd, ''components'', componentName];
          made = (if \<not> existsSync fs componentDir then call fs (MkdirSync componentDir) ([], None)
                  else ([], None));
          template = or_simple templates key;
          cssTemplate = (if is_styled then Some (or_simple cssTemplates key) else None)
      in case template of
           Inherited \<Rightarrow> throw TypeError made
         | Absent \<Rightarrow> throw TypeError made
         | Own text \<Rightarrow>
             let componentFile = path_join [componentDir, componentName @ ''.tsx''];
                 written =
                   call fs (WriteFileSync componentFile (renderComponent text componentName)) made;
                 with_css =
                   (case cssTemplate of
                      None \<Rightarrow> written
                    | Some Absent \<Rightarrow> written
                    | Some Inherited \<Rightarrow> throw TypeError written
                    | Some (Own css) \<Rightarrow>
                        if css \<noteq> []
                        then call fs
                               (WriteFileSync
                                  (path_join [componentDir, componentName @ ''.module.css''])
                                  (replace_all css ''{{componentName}}'' (toLowerCase componentName)))
                               written
                        else written);
                 with_index =
                   call fs
                     (WriteFileSync (path_join [componentDir, ''index.ts''])
                        (indexContent is_typed componentName))
                     with_css
             in call fs
                  (WriteFileSync (path_join [componentDir, componentName @ ''.test.tsx''])
                     (testContent componentName))
                  with_index)"

text \<open>The paths that a run writes to, in the order of the writes.\<close>

fun written_files :: "fs_call list \<Rightarrow> string list" where
  "written_files [] = []"
| "written_files (MkdirSync dir # calls) = written_files calls"
| "written_files (WriteFileSync file text # calls) = file # written_files calls"

subsection \<open>The command line\<close>

text \<open>
  The loop of \<open>main\<close> over the arguments after the name, which fills the
  options, and \<open>main\<close> itself: the calls to \<open>fs\<close> and the exit status. With no
  name it prints the usage and exits with 1, as it does when \<open>createComponent\<close>
  throws.
\<close>

fun parse_options :: "string list \<Rightarrow> GenerationOptions \<Rightarrow> GenerationOptions" where
  "parse_options [] options = options"
| "parse_options (arg # args) options =
     parse_options args
       (if startsWith arg ''--type='' then
          options \<lparr> type' := (case split arg CHR ''='' of a # b # pieces \<Rightarrow> Some b | _ \<Rightarrow> None) \<rparr>
        else if arg = ''--styled'' then options \<lparr> styled := Some True \<rparr>
        else if arg = ''--no-styled'' then options \<lparr> styled := Some False \<rparr>
        else if arg = ''--typed'' then options \<lparr> typed := Some True \<rparr>
        else if arg = ''--no-typed'' then options \<lparr> typed := Some False \<rparr>
        else options)"

definition main :: "string \<Rightarrow> FileSystem \<Rightarrow> string list \<Rightarrow> fs_call list \<times> nat" where
  "main cwd fs args =
     (case args of
        [] \<Rightarrow> ([], 1)
      | componentName # flags \<Rightarrow>
          if componentName = [] then ([], 1)
          else
            (case createComponent cwd fs componentName
                    (parse_options flags \<lparr> type' = None, styled = None, typed = None \<rparr>) of
               (calls, None) \<Rightarrow> (calls, 0)
             | (calls, Some e) \<Rightarrow> (calls, 1)))"

section \<open>The notions of the specification\<close>

text \<open>
  The inputs, the readings and the tables that the statements below are about.
  Nothing here is part of the scripts.
\<close>

subsection \<open>Files\<close>

text \<open>A file system in which no file can be read.\<close>

definition no_such_file :: "string \<Rightarrow> string + string" where
  "no_such_file filePath = Inl ''ENOENT: no such file or directory''"

text \<open>A file system in which every path holds the one line \<open>.myClass { color: red; }\<close>.\<close>

definition myClass_file :: "string \<Rightarrow> string + string" where
  "myClass_file filePath = Inr ''.myClass { color: red; }''"

text \<open>A file system in which no path exists yet, and every call returns.\<close>

definition no_directory :: FileSystem where
  "no_directory =
     \<lparr> existsSync = (\<lambda>path. False),
       mkdirSync = (\<lambda>dir. None),
       writeFileSync = (\<lambda>file data. None) \<rparr>"

text \<open>
  A file system in which a directory can be made, but no file can be written
  below a directory that \<open>mkdirSync\<close> was not asked for: the writes to a path with
  a slash after \<open>/work/components/a/b/\<close> throw.
\<close>

definition only_made_directories :: FileSystem where
  "only_made_directories =
     \<lparr> existsSync = (\<lambda>path. False),
       mkdirSync = (\<lambda>dir. None),
       writeFileSync =
         (\<lambda>file data.
            if startsWith file ''/work/components/a/b/''
               \<and> CHR ''/'' \<in> set (drop (length ''/work/components/a/b/'') file)
            then Some ''ENOENT'' else None) \<rparr>"

text \<open>
  A plain name of a file or a directory: not empty, without a slash, and neither
  \<open>.\<close> nor \<open>..\<close>.
\<close>

definition plain_name :: "string \<Rightarrow> bool" where
  "plain_name n \<longleftrightarrow> n \<noteq> [] \<and> CHR ''/'' \<notin> set n \<and> n \<noteq> ''.'' \<and> n \<noteq> ''..''"

text \<open>
  The names that the claims call identifiers: a letter, an underscore or a dollar
  sign, then letters, digits, underscores and dollar signs.
\<close>

definition is_identifier :: "string \<Rightarrow> bool" where
  "is_identifier s =
     (case s of
        [] \<Rightarrow> False
      | c # cs \<Rightarrow>
          (is_lower c \<or> is_upper c \<or> c = CHR ''_'' \<or> c = CHR ''$'')
          \<and> list_all (\<lambda>c. is_alnum c \<or> c = CHR ''_'' \<or> c = CHR ''$'') cs)"

subsection \<open>Generated text\<close>

text \<open>
  The text that the claims describe: an interface of the given name, a blank line,
  and the interface of the same name with \<open>Props\<close> after it, both with the same
  lines between their braces.
\<close>

definition interface_pair :: "string \<Rightarrow> string \<Rightarrow> string" where
  "interface_pair typeName body =
     ''export interface '' @ typeName @ '' {\<newline>'' @ body @ ''\<newline>}''
       @ ''\<newline>\<newline>''
       @ ''export interface '' @ typeName @ ''Props {\<newline>'' @ body @ ''\<newline>}\<newline>''"

text \<open>The document of the example: two properties, one of them required.\<close>

definition item_schema :: js where
  "item_schema =
     JObj [(''properties'',
              JObj [(''id'', JObj [(''type'', JStr ''string'')]),
                    (''count'', JObj [(''type'', JStr ''number'')])]),
           (''required'', JArr [JStr ''id''])]"

text \<open>
  A document with a property of each row of the table: an array of a named item
  type, arrays without one, an array whose items name two types, objects with
  open, closed and undeclared additional properties, and a type outside the
  table.
\<close>

definition catalog_schema :: js where
  "catalog_schema =
     JObj [(''type'', JStr ''object''),
           (''properties'',
              JObj [(''title'', JObj [(''type'', JStr ''string''),
                                      (''description'', JStr ''The title'')]),
                    (''price'', JObj [(''type'', JStr ''number'')]),
                    (''sold'', JObj [(''type'', JStr ''boolean'')]),
                    (''sizes'', JObj [(''type'', JStr ''array''),
                                      (''items'', JObj [(''type'', JStr ''number'')])]),
                    (''notes'', JObj [(''type'', JStr ''array'')]),
                    (''pairs'', JObj [(''type'', JStr ''array''),
                                      (''items'', JArr [JObj [(''type'', JStr ''string'')],
                                                        JObj [(''type'', JStr ''number'')]])]),
                    (''tags'', JObj [(''type'', JStr ''array''),
                                     (''items'', JObj [(''type'', JArr [JStr ''string'', JStr ''null''])])]),
                    (''labels'', JObj [(''type'', JStr ''object''),
                                       (''additionalProperties'', JObj [(''type'', JStr ''string'')])]),
                    (''extra'', JObj [(''type'', JStr ''object''),
                                      (''additionalProperties'', JBool True)]),
                    (''origin'', JObj [(''type'', JStr ''object''),
                                       (''additionalProperties'', JBool False)]),
                    (''owner'', JObj [(''type'', JStr ''object'')]),
                    (''stock'', JObj [(''type'', JStr ''integer'')]),
                    (''code'', JObj [(''type'', JArr [JStr ''string'', JStr ''null''])]),
                    (''anything'', JBool True)]),
           (''required'', JArr [JStr ''title'', JStr ''price''])]"

text \<open>
  A reading of ``the schema declares the type \<open>N\<close>'': on some line the first word
  is \<open>type\<close>, and the word after it is \<open>N\<close>.
\<close>

definition declared_name :: "string \<Rightarrow> string option" where
  "declared_name ln =
     (let s = dropWhile is_space ln;
          after_keyword = drop 4 s
      in if startsWith s ''type'' \<and> after_keyword \<noteq> [] \<and> is_space (hd after_keyword)
         then Some (takeWhile is_word (dropWhile is_space after_keyword))
         else None)"

definition declares_type :: "string \<Rightarrow> string \<Rightarrow> bool" where
  "declares_type schema typeName =
     list_ex (\<lambda>ln. declared_name ln = Some typeName) (split schema CHR 0x0A)"

subsection \<open>JSON Schema documents\<close>

text \<open>
  \<open>field v k\<close> is the own property \<open>k\<close> of \<open>v\<close>, or \<open>undefined\<close>.
\<close>

definition field :: "js \<Rightarrow> string \<Rightarrow> js" where
  "field v k =
     (case v of
        JObj kvs \<Rightarrow> (case map_of kvs k of None \<Rightarrow> JUndefined | Some x \<Rightarrow> x)
      | _ \<Rightarrow> JUndefined)"







text \<open>
  The item type of an array property: the type that its \<open>items\<close> name, \<open>any\<close> when
  they name none. Where the \<open>items\<close> give a list of names, the item type is that
  list as it is written, the names with commas between them.
\<close>

fun separated :: "string list \<Rightarrow> string" where
  "separated [] = []"
| "separated [n] = n"
| "separated (n # m # ms) = n @ '','' @ separated (m # ms)"

definition item_type :: "js \<Rightarrow> string" where
  "item_type prop =
     (case field (field prop ''items'') ''type'' of
        JStr t \<Rightarrow> if t = [] then ''any'' else t
      | JArr names \<Rightarrow> separated (concat (map (\<lambda>n. case n of JStr s \<Rightarrow> [s] | _ \<Rightarrow> []) names))
      | _ \<Rightarrow> ''any'')"





subsection \<open>Replacing without dollar patterns\<close>

text \<open>
  The replacement that the specification calls literal: every occurrence of the
  pattern, from left to right, gives way to the replacement as it stands.
\<close>

function replace_plain :: "string \<Rightarrow> string \<Rightarrow> string \<Rightarrow> string" where
  "replace_plain (p # ps) replacement [] = []"
| "replace_plain (p # ps) replacement (c # cs) =
     (if startsWith (c # cs) (p # ps)
      then replacement @ replace_plain (p # ps) replacement (drop (length ps) cs)
      else c # replace_plain (p # ps) replacement cs)"
| "replace_plain [] replacement [] = replacement"
| "replace_plain [] replacement (c # cs) = replacement @ c # replace_plain [] replacement cs"
  by pat_completeness auto
termination
  by (relation "measure (\<lambda>(pattern, replacement, s). length s)") auto

section \<open>Properties of the style validator\<close>

subsection \<open>The issues of a file, line by line\<close>

lemma selector_rules_append:
  "selector_rules n sel rules issues = issues @ selector_rules n sel rules []"
proof (induction rules arbitrary: issues)
  case Nil
  show ?case by simp
next
  case (Cons entry rules)
  obtain ruleName r where entry: "entry = (ruleName, r)"
    by (cases entry)
  show ?case
  proof (cases r)
    case (PatternRule pattern msg)
    show ?thesis
      using Cons.IH [of "issues @ [\<lparr> line = n, rule = ruleName, message = msg, content = sel \<rparr>]"]
        Cons.IH [of "[\<lparr> line = n, rule = ruleName, message = msg, content = sel \<rparr>]"]
        Cons.IH [of issues]
      by (simp add: entry PatternRule)
  next
    case (ValidateRule v)
    show ?thesis
      using Cons.IH [of issues] by (simp add: entry ValidateRule)
  qed
qed

lemma selector_rules_line:
  "i \<in> set (selector_rules n sel rules []) \<Longrightarrow> line i = n"
proof (induction rules)
  case Nil
  then show ?case by simp
next
  case (Cons entry rules)
  obtain ruleName r where entry: "entry = (ruleName, r)"
    by (cases entry)
  from Cons show ?case
    by (cases r)
      (auto simp: entry selector_rules_append [of n sel rules "[x]" for x] split: if_splits)
qed

lemma validate_line_append:
  "validate_line issues ln index = issues @ validate_line [] ln index"
  by (simp add: validate_line_def Let_def noImportant_def preferRelativeUnits_def
      selector_rules_append [of _ _ _ issues])

lemma validate_line_number:
  "i \<in> set (validate_line [] ln index) \<Longrightarrow> line i = index + 1"
  by (auto simp: validate_line_def Let_def noImportant_def preferRelativeUnits_def
      split: if_splits dest: selector_rules_line)

lemma forEach_line_enumerate:
  "forEach_line issues lns index =
     issues @ concat (map (\<lambda>(k, ln). validate_line [] ln k) (List.enumerate index lns))"
proof (induction lns arbitrary: issues index)
  case Nil
  show ?case by simp
next
  case (Cons ln lns)
  show ?case
    using Cons.IH [of "validate_line issues ln index" "Suc index"]
      validate_line_append [of issues ln index]
    by simp
qed

text \<open>An issue of the file is an issue of one of its lines, checked on its own.\<close>

lemma validateCSS_issues:
  "i \<in> set (validateCSS css filePath) \<longleftrightarrow>
     (\<exists>k < length (split css CHR 0x0A). i \<in> set (validate_line [] (split css CHR 0x0A ! k) k))"
proof
  assume "i \<in> set (validateCSS css filePath)"
  then obtain k ln where entry: "(k, ln) \<in> set (List.enumerate 0 (split css CHR 0x0A))"
    and issue: "i \<in> set (validate_line [] ln k)"
    by (auto simp: validateCSS_def forEach_line_enumerate)
  from entry have "k < length (split css CHR 0x0A)" and "ln = split css CHR 0x0A ! k"
    by (simp_all add: in_set_enumerate_eq)
  with issue show "\<exists>k < length (split css CHR 0x0A).
      i \<in> set (validate_line [] (split css CHR 0x0A ! k) k)"
    by blast
next
  assume "\<exists>k < length (split css CHR 0x0A).
      i \<in> set (validate_line [] (split css CHR 0x0A ! k) k)"
  then obtain k where k: "k < length (split css CHR 0x0A)"
    and issue: "i \<in> set (validate_line [] (split css CHR 0x0A ! k) k)"
    by blast
  from k have "(k, split css CHR 0x0A ! k) \<in> set (List.enumerate 0 (split css CHR 0x0A))"
    by (simp add: in_set_enumerate_eq)
  with issue show "i \<in> set (validateCSS css filePath)"
    by (force simp: validateCSS_def forEach_line_enumerate)
qed

subsection \<open>Class selectors and the naming rule\<close>

lemma trim_keeps_head:
  assumes "\<not> is_space c"
  shows "\<exists>rest. trim (c # cs) = c # rest"
proof -
  have "dropWhile is_space (rev cs @ [c]) = dropWhile is_space (rev cs) @ [c]"
    using assms by (simp add: dropWhile_append3)
  with assms show ?thesis
    by (simp add: trim_def)
qed

lemma classNaming_rejects_dot:
  assumes "startsWith s ''.''"
  shows "\<not> classNaming_pattern (trim s)"
proof -
  from assms obtain cs where s: "s = CHR ''.'' # cs"
    by (cases s) auto
  have "\<not> is_space CHR ''.''"
    by (simp add: is_space_def)
  then obtain rest where "trim s = CHR ''.'' # rest"
    unfolding s using trim_keeps_head by blast
  then show ?thesis
    by (simp add: classNaming_pattern_def is_lower_def)
qed

lemma selector_rules_classNaming:
  assumes "\<not> classNaming_pattern sel"
  shows "\<lparr> line = n, rule = ''classNaming'',
            message = ''Class names should use camelCase starting with a lowercase letter'',
            content = sel \<rparr> \<in> set (selector_rules n sel validationRules [])"
  using assms
  by (simp add: validationRules_def classNaming_def noIds_def noUniversal_def
      preferRelativeUnits_def noImportant_def)

lemma validate_line_keeps_selector_issues:
  assumes "trim ln \<noteq> []" and "\<not> startsWith (trim ln) ''/*''" and "\<not> startsWith (trim ln) ''//''"
    and "includes_str (trim ln) ''{''"
  shows "set (selector_rules (index + 1) (trim (hd (split (trim ln) CHR ''{''))) validationRules [])
           \<subseteq> set (validate_line [] ln index)"
  using assms
  by (auto simp: validate_line_def Let_def noImportant_def preferRelativeUnits_def)

text \<open>
  C10. On every line that is neither blank nor a comment, that has an opening
  brace and whose text before the brace begins with a dot, the pattern
  \<open>/^[a-z][a-zA-Z0-9]*$/\<close> is tested against the selector with its dot: the
  selector fails it, and the file has a \<open>classNaming\<close> issue at that line.
\<close>

theorem class_selector_always_flagged:
  assumes "k < length (split css CHR 0x0A)"
    and "trimmed = trim (split css CHR 0x0A ! k)"
    and "trimmed \<noteq> []"
    and "\<not> startsWith trimmed ''/*''"
    and "\<not> startsWith trimmed ''//''"
    and "includes_str trimmed ''{''"
    and "startsWith (hd (split trimmed CHR ''{'')) ''.''"
  shows "\<not> classNaming_pattern (trim (hd (split trimmed CHR ''{'')))
     \<and> (\<exists>i \<in> set (validateCSS css filePath).
           line i = k + 1 \<and> rule i = ''classNaming''
           \<and> content i = trim (hd (split trimmed CHR ''{'')))"
proof -
  let ?sel = "trim (hd (split trimmed CHR ''{''))"
  let ?issue = "\<lparr> line = k + 1, rule = ''classNaming'',
      message = ''Class names should use camelCase starting with a lowercase letter'',
      content = ?sel \<rparr>"
  have fails: "\<not> classNaming_pattern ?sel"
    using assms(7) by (rule classNaming_rejects_dot)
  then have "?issue \<in> set (selector_rules (k + 1) ?sel validationRules [])"
    by (rule selector_rules_classNaming)
  then have "?issue \<in> set (validate_line [] (split css CHR 0x0A ! k) k)"
    using validate_line_keeps_selector_issues [of "split css CHR 0x0A ! k" k] assms(2-6)
    by auto
  with assms(1) have "?issue \<in> set (validateCSS css filePath)"
    unfolding validateCSS_issues by blast
  moreover have "line ?issue = k + 1 \<and> rule ?issue = ''classNaming'' \<and> content ?issue = ?sel"
    by simp
  ultimately show ?thesis
    using fails by blast
qed

theorem class_selector_always_flagged_witness:
  "startsWith (hd (split (trim (split ''.myClass { color: red; }'' CHR 0x0A ! 0)) CHR ''{'')) ''.''
   \<and> \<not> classNaming_pattern ''.myClass''
   \<and> (\<exists>i \<in> set (validateCSS ''.myClass { color: red; }'' ''Button.module.css'').
         line i = 1 \<and> rule i = ''classNaming'' \<and> content i = ''.myClass'')"
proof -
  let ?css = "''.myClass { color: red; }''"
  have trimmed: "trim (split ?css CHR 0x0A ! 0) = ?css"
    by code_simp
  have selector: "trim (hd (split ?css CHR ''{'')) = ''.myClass''"
    by code_simp
  have h1: "0 < length (split ?css CHR 0x0A)"
    by code_simp
  have h2: "?css = trim (split ?css CHR 0x0A ! 0)"
    using trimmed by simp
  have h3: "?css \<noteq> []"
    by simp
  have h4: "\<not> startsWith ?css ''/*''"
    by simp
  have h5: "\<not> startsWith ?css ''//''"
    by simp
  have h6: "includes_str ?css ''{''"
    by code_simp
  have h7: "startsWith (hd (split ?css CHR ''{'')) ''.''"
    by code_simp
  have first: "startsWith (hd (split (trim (split ?css CHR 0x0A ! 0)) CHR ''{'')) ''.''"
    unfolding trimmed by (rule h7)
  have rest: "\<not> classNaming_pattern ''.myClass''
      \<and> (\<exists>i \<in> set (validateCSS ?css ''Button.module.css'').
            line i = 1 \<and> rule i = ''classNaming'' \<and> content i = ''.myClass'')"
    using class_selector_always_flagged [OF h1 h2 h3 h4 h5 h6 h7, of "''Button.module.css''"]
    unfolding selector by simp
  from first rest show ?thesis
    by (rule conjI)
qed

subsection \<open>Line numbers\<close>

text \<open>
  C9, as stated, fails: the issue that \<open>validateFile\<close> makes up for a file it cannot
  read has the line number 0.
\<close>

theorem validateFile_unreadable_line_zero:
  "map line (validateFile no_such_file ''missing.module.css'') = [0]"
  by (simp add: validateFile_def no_such_file_def)

text \<open>
  C9, amended. Every issue that \<open>validateCSS\<close> finds, and so every issue that
  \<open>validateFile\<close> returns for a file it could read, has the number of a line of the
  file, counted from 1. For a file that cannot be read \<open>validateFile\<close> returns the
  one issue \<open>fileError\<close>, whose line number is 0.
\<close>

theorem validateFile_line_numbers:
  "(\<forall>i \<in> set (validateCSS css filePath). 1 \<le> line i \<and> line i \<le> length (split css CHR 0x0A))
   \<and> (readFileSync filePath = Inr css \<longrightarrow>
        (\<forall>i \<in> set (validateFile readFileSync filePath).
           1 \<le> line i \<and> line i \<le> length (split css CHR 0x0A)))
   \<and> (readFileSync filePath = Inl msg \<longrightarrow>
        validateFile readFileSync filePath =
          [\<lparr> line = 0, rule = ''fileError'', message = ''Could not read file: '' @ msg,
             content = [] \<rparr>])"
proof -
  have css: "\<forall>i \<in> set (validateCSS css filePath).
      1 \<le> line i \<and> line i \<le> length (split css CHR 0x0A)"
  proof
    fix i
    assume "i \<in> set (validateCSS css filePath)"
    then obtain k where "k < length (split css CHR 0x0A)"
      and "i \<in> set (validate_line [] (split css CHR 0x0A ! k) k)"
      unfolding validateCSS_issues by blast
    then show "1 \<le> line i \<and> line i \<le> length (split css CHR 0x0A)"
      using validate_line_number [of i "split css CHR 0x0A ! k" k] by simp
  qed
  then show ?thesis
    by (simp add: validateFile_def)
qed

theorem validateFile_line_numbers_witness:
  "myClass_file ''Button.module.css'' = Inr ''.myClass { color: red; }''
   \<and> map line (validateFile myClass_file ''Button.module.css'') = [1]
   \<and> no_such_file ''missing.module.css'' = Inl ''ENOENT: no such file or directory''
   \<and> map line (validateFile no_such_file ''missing.module.css'') = [0]"
proof -
  have readable: "myClass_file ''Button.module.css'' = Inr ''.myClass { color: red; }''"
    by (simp add: myClass_file_def)
  have unreadable: "no_such_file ''missing.module.css'' = Inl ''ENOENT: no such file or directory''"
    by (simp add: no_such_file_def)
  have issues: "map line (validateFile myClass_file ''Button.module.css'') = [1]"
    by code_simp
  from validateFile_line_numbers
    [of "''.myClass { color: red; }''" "''Button.module.css''" myClass_file
      "''ENOENT: no such file or directory''"]
    validateFile_line_numbers
    [of "''.myClass { color: red; }''" "''missing.module.css''" no_such_file
      "''ENOENT: no such file or directory''"]
  show ?thesis
    using readable unreadable issues by simp
qed

subsection \<open>Where the validator departs from its rules\<close>

text \<open>
  C1. A file whose one line is \<open>.myClass { color: red; }\<close> does not pass: the naming
  pattern is tested against the selector \<open>.myClass\<close>, dot included, and the file has
  one \<open>classNaming\<close> issue, although \<open>myClass\<close> is a camelCase name as the message
  of the rule asks for.
\<close>

theorem validateCSS_myClass_flagged:
  "validateCSS ''.myClass { color: red; }'' ''Button.module.css'' =
     [\<lparr> line = 1, rule = ''classNaming'',
        message = ''Class names should use camelCase starting with a lowercase letter'',
        content = ''.myClass'' \<rparr>]
   \<and> validateFile myClass_file ''Button.module.css'' =
     [\<lparr> line = 1, rule = ''classNaming'',
        message = ''Class names should use camelCase starting with a lowercase letter'',
        content = ''.myClass'' \<rparr>]"
  by code_simp

text \<open>
  An issue of the rule \<open>noImportant\<close> is about the text before a brace, and that
  text has the \<open>!\<close>: what follows the brace, or stands on a line without one, is
  never looked at.
\<close>

lemma selector_rules_noImportant:
  assumes "i \<in> set (selector_rules n sel validationRules [])" and "rule i = ''noImportant''"
  shows "content i = sel \<and> CHR ''!'' \<in> set sel"
  using assms
  by (auto simp: validationRules_def classNaming_def noIds_def noUniversal_def
      preferRelativeUnits_def noImportant_def noImportant_pattern_def list_all_iff
      split: if_splits)

lemma noImportant_issue_is_selector:
  assumes "i \<in> set (validateCSS css filePath)" and "rule i = ''noImportant''"
  shows "\<exists>k < length (split css CHR 0x0A).
     line i = k + 1
     \<and> includes_str (trim (split css CHR 0x0A ! k)) ''{''
     \<and> content i = trim (hd (split (trim (split css CHR 0x0A ! k)) CHR ''{''))
     \<and> CHR ''!'' \<in> set (content i)"
proof -
  from assms(1) obtain k where k: "k < length (split css CHR 0x0A)"
    and issue: "i \<in> set (validate_line [] (split css CHR 0x0A ! k) k)"
    unfolding validateCSS_issues by blast
  let ?trimmed = "trim (split css CHR 0x0A ! k)"
  from issue assms(2) have brace: "includes_str ?trimmed ''{''"
    and selector: "i \<in> set (selector_rules (k + 1) (trim (hd (split ?trimmed CHR ''{'')))
        validationRules [])"
    by (auto simp: validate_line_def Let_def noImportant_def preferRelativeUnits_def
        split: if_splits)
  from selector_rules_noImportant [OF selector assms(2)] validate_line_number [OF issue] k brace
  show ?thesis
    by auto
qed

text \<open>
  C5. A declaration with \<open>!important\<close> raises no issue. The pattern of
  \<open>noImportant\<close> is tested against the selector only, and the check of the whole
  line asks for \<open>validationRules.noImportant.validate\<close>, which the rule does not
  have. The first file below has no issue at all; the second has \<open>!important\<close> on
  the line of the brace and is flagged for the name of its class alone.
\<close>

theorem validateCSS_important_unflagged:
  "rule_validate noImportant = None
   \<and> validateCSS ''box {\<newline>  color: red !important;\<newline>}'' ''Box.module.css'' = []
   \<and> map rule (validateCSS ''.box { color: red !important; }'' ''Box.module.css'')
       = [''classNaming'']"
  by code_simp

section \<open>Properties of the type generator\<close>

subsection \<open>The text of \<open>generateTypeScriptTypes\<close>\<close>

lemma generateTypeScriptTypes_text:
  "generateTypeScriptTypes \<lparr> schema_name = typeName, properties = props, interfaces = Some [] \<rparr> =
     (case map_properties props of
        Inl e \<Rightarrow> Inl e
      | Inr definitions \<Rightarrow> Inr (interface_pair typeName (join definitions ''\<newline>'')))"
  by (simp add: generateTypeScriptTypes_def interface_pair_def Let_def split: sum.splits)

text \<open>
  C8. Whatever \<open>generateFromJSON\<close> or \<open>generateFromGraphQL\<close> returns is the
  declaration \<open>export interface N { ... }\<close>, a blank line, and the declaration
  \<open>export interface NProps { ... }\<close> with the same text between the braces; neither
  header has an \<open>extends\<close> clause.
\<close>

theorem generated_interfaces_duplicated:
  assumes "generateFromJSON jsonSchema typeName = Inr out
     \<or> generateFromGraphQL schema typeName = Inr out"
  shows "\<exists>body.
     out = ''export interface '' @ typeName @ '' {\<newline>'' @ body @ ''\<newline>}''
             @ ''\<newline>\<newline>''
             @ ''export interface '' @ typeName @ ''Props {\<newline>'' @ body @ ''\<newline>}\<newline>''"
proof -
  from assms obtain props where
    "generateTypeScriptTypes
       \<lparr> schema_name = typeName, properties = props, interfaces = Some [] \<rparr> = Inr out"
    by (auto simp: generateFromJSON_def generateFromGraphQL_def Let_def
        split: sum.splits if_splits)
  then obtain definitions where "out = interface_pair typeName (join definitions ''\<newline>'')"
    unfolding generateTypeScriptTypes_text by (auto split: sum.splits)
  then show ?thesis
    unfolding interface_pair_def by blast
qed

lemma generateFromJSON_item:
  "generateFromJSON item_schema ''Item'' =
     Inr ''export interface Item {\<newline>  id: string;\<newline>  count?: number;\<newline>}\<newline>\<newline>export interface ItemProps {\<newline>  id: string;\<newline>  count?: number;\<newline>}\<newline>''"
  by code_simp

lemma generateFromGraphQL_User:
  "generateFromGraphQL ''type User {\<newline>  id: ID!\<newline>  name: String\<newline>}'' ''User'' =
     Inr ''export interface User {\<newline>  id?: ID;\<newline>  name?: String;\<newline>}\<newline>\<newline>export interface UserProps {\<newline>  id?: ID;\<newline>  name?: String;\<newline>}\<newline>''"
  by code_simp

theorem generated_interfaces_duplicated_witness:
  "generateFromJSON item_schema ''Item'' =
     Inr ''export interface Item {\<newline>  id: string;\<newline>  count?: number;\<newline>}\<newline>\<newline>export interface ItemProps {\<newline>  id: string;\<newline>  count?: number;\<newline>}\<newline>''
   \<and> (\<exists>body.
         ''export interface Item {\<newline>  id: string;\<newline>  count?: number;\<newline>}\<newline>\<newline>export interface ItemProps {\<newline>  id: string;\<newline>  count?: number;\<newline>}\<newline>''
           = ''export interface '' @ ''Item'' @ '' {\<newline>'' @ body @ ''\<newline>}''
               @ ''\<newline>\<newline>''
               @ ''export interface '' @ ''Item'' @ ''Props {\<newline>'' @ body @ ''\<newline>}\<newline>'')
   \<and> (\<exists>body.
         ''export interface User {\<newline>  id?: ID;\<newline>  name?: String;\<newline>}\<newline>\<newline>export interface UserProps {\<newline>  id?: ID;\<newline>  name?: String;\<newline>}\<newline>''
           = ''export interface '' @ ''User'' @ '' {\<newline>'' @ body @ ''\<newline>}''
               @ ''\<newline>\<newline>''
               @ ''export interface '' @ ''User'' @ ''Props {\<newline>'' @ body @ ''\<newline>}\<newline>'')"
proof -
  note json = generateFromJSON_item
  note graphql = generateFromGraphQL_User
  from generated_interfaces_duplicated [of item_schema "''Item''" _ "[]", OF disjI1, OF json]
    generated_interfaces_duplicated [of JNull "''User''" _ _, OF disjI2, OF graphql]
    json
  show ?thesis
    by (intro conjI)
qed

subsection \<open>The JSON path\<close>

















text \<open>
  The text that \<open>generateFromJSON\<close> returns for the document with a property of
  each row, computed from the script alone.
\<close>

lemma generateFromJSON_catalog:
  "generateFromJSON catalog_schema ''Catalog'' =
     Inr ''export interface Catalog {\<newline>  /** The title */\<newline>  title: string;\<newline>  price: number;\<newline>  sold?: boolean;\<newline>  sizes?: number[];\<newline>  notes?: any[];\<newline>  pairs?: any[];\<newline>  tags?: string,null[];\<newline>  labels?: Record<string, any>;\<newline>  extra?: Record<string, any>;\<newline>  origin?: object;\<newline>  owner?: object;\<newline>  stock?: any;\<newline>  code?: any;\<newline>  anything?: any;\<newline>}\<newline>\<newline>export interface CatalogProps {\<newline>  /** The title */\<newline>  title: string;\<newline>  price: number;\<newline>  sold?: boolean;\<newline>  sizes?: number[];\<newline>  notes?: any[];\<newline>  pairs?: any[];\<newline>  tags?: string,null[];\<newline>  labels?: Record<string, any>;\<newline>  extra?: Record<string, any>;\<newline>  origin?: object;\<newline>  owner?: object;\<newline>  stock?: any;\<newline>  code?: any;\<newline>  anything?: any;\<newline>}\<newline>''"
  by code_simp

subsection \<open>The GraphQL path\<close>

lemma for_lines_no_description:
  "list_all (\<lambda>p. description p = JUndefined) props \<Longrightarrow>
   list_all (\<lambda>p. description p = JUndefined) (for_lines typeName lns inTargetType props)"
  by (induction typeName lns inTargetType props rule: for_lines.induct)
    (auto split: option.splits)

lemma map_properties_no_description:
  "list_all (\<lambda>p. description p = JUndefined) props \<Longrightarrow> \<exists>definitions. map_properties props = Inr definitions"
  by (induction props) (auto simp: property_definition_def)

text \<open>
  C2. For the type \<open>User\<close> written as GraphQL writes it, one field on a line, the
  field \<open>id: ID!\<close> comes out optional: the expression looks for the \<open>!\<close> between the
  name of the field and the colon, and the \<open>!\<close> after the type is only taken away.
  For the type written on one line, as the specification has it, the loop skips
  the line that holds \<open>type User\<close> and finds no field at all.
\<close>

theorem generateFromGraphQL_User_id_optional:
  "field_match ''  id: ID!'' = Some (''id'', [], ''ID!'')
   \<and> generateFromGraphQL ''type User {\<newline>  id: ID!\<newline>  name: String\<newline>}'' ''User'' =
       Inr ''export interface User {\<newline>  id?: ID;\<newline>  name?: String;\<newline>}\<newline>\<newline>export interface UserProps {\<newline>  id?: ID;\<newline>  name?: String;\<newline>}\<newline>''
   \<and> generateFromGraphQL ''type User { id: ID! name: String }'' ''User'' =
       Inr ''export interface User {\<newline>\<newline>}\<newline>\<newline>export interface UserProps {\<newline>\<newline>}\<newline>''"
  by code_simp

text \<open>
  The error is thrown exactly when no line of the schema holds the text \<open>type N\<close>;
  otherwise \<open>generateFromGraphQL\<close> returns the two interfaces of the name \<open>N\<close>, made
  of the properties that the loop finds.
\<close>

lemma generateFromGraphQL_throws:
  assumes "\<not> list_ex (\<lambda>ln. includes_str ln (''type '' @ typeName)) (split schema CHR 0x0A)"
  shows "generateFromGraphQL schema typeName =
     Inl (Error (''Type '' @ typeName @ '' not found in GraphQL schema''))"
  using assms by (simp add: generateFromGraphQL_def)

lemma generateFromGraphQL_returns:
  assumes "list_ex (\<lambda>ln. includes_str ln (''type '' @ typeName)) (split schema CHR 0x0A)"
  shows "\<exists>definitions.
     map_properties (for_lines typeName (split schema CHR 0x0A) False []) = Inr definitions
     \<and> generateFromGraphQL schema typeName =
         Inr (interface_pair typeName (join definitions ''\<newline>''))"
proof -
  have "list_all (\<lambda>p. description p = JUndefined)
      (for_lines typeName (split schema CHR 0x0A) False [])"
    by (rule for_lines_no_description) simp
  then obtain definitions where
    "map_properties (for_lines typeName (split schema CHR 0x0A) False []) = Inr definitions"
    using map_properties_no_description by blast
  with assms show ?thesis
    by (simp add: generateFromGraphQL_def generateTypeScriptTypes_text)
qed

text \<open>
  C3. A schema that declares \<open>UserProfile\<close> only does not declare \<open>User\<close>, but its
  first line holds the text \<open>type User\<close>: \<open>generateFromGraphQL\<close> throws nothing, and
  the field of \<open>UserProfile\<close> comes out as the interface \<open>User\<close>. Where the schema
  declares both types, \<open>UserProfile\<close> first, the interface \<open>User\<close> has the field of
  \<open>UserProfile\<close> and not its own. A name that occurs nowhere gives the error.
\<close>

theorem generateFromGraphQL_prefix_of_declared_type:
  "\<not> declares_type ''type UserProfile {\<newline>  bio: String\<newline>}'' ''User''
   \<and> declares_type ''type UserProfile {\<newline>  bio: String\<newline>}'' ''UserProfile''
   \<and> generateFromGraphQL ''type UserProfile {\<newline>  bio: String\<newline>}'' ''User'' =
       Inr ''export interface User {\<newline>  bio?: String;\<newline>}\<newline>\<newline>export interface UserProps {\<newline>  bio?: String;\<newline>}\<newline>''
   \<and> declares_type
         ''type UserProfile {\<newline>  bio: String\<newline>}\<newline>type User {\<newline>  id: ID\<newline>}'' ''User''
   \<and> generateFromGraphQL
         ''type UserProfile {\<newline>  bio: String\<newline>}\<newline>type User {\<newline>  id: ID\<newline>}'' ''User'' =
       Inr ''export interface User {\<newline>  bio?: String;\<newline>}\<newline>\<newline>export interface UserProps {\<newline>  bio?: String;\<newline>}\<newline>''
   \<and> generateFromGraphQL ''type UserProfile {\<newline>  bio: String\<newline>}'' ''Account'' =
       Inl (Error ''Type Account not found in GraphQL schema'')"
  by code_simp
section \<open>Properties of the component scaffolder\<close>

subsection \<open>The files of a run\<close>

lemma templates_not_empty:
  "templates_simple \<noteq> []" "templates_interactive \<noteq> []"
  "templates_data \<noteq> []" "templates_form \<noteq> []"
  "cssTemplates_simple \<noteq> []" "cssTemplates_interactive \<noteq> []"
  "cssTemplates_data \<noteq> []" "cssTemplates_form \<noteq> []"
  by (simp_all add: templates_simple_def templates_interactive_def templates_data_def
      templates_form_def cssTemplates_simple_def cssTemplates_interactive_def
      cssTemplates_data_def cssTemplates_form_def)

lemma or_simple_own:
  assumes "key \<notin> set prototype_names"
  shows "\<exists>text. or_simple templates key = Own text"
    and "\<exists>css. or_simple cssTemplates key = Own css \<and> css \<noteq> []"
  using assms
  by (simp_all add: or_simple_def templates_def cssTemplates_def templates_not_empty)

lemma or_simple_inherited:
  assumes "key \<in> set prototype_names"
  shows "or_simple templates key = Inherited"
  using assms
  by (auto simp: or_simple_def templates_def prototype_names_def)

lemma written_files_append:
  "written_files (calls @ others) = written_files calls @ written_files others"
  by (induction calls rule: written_files.induct) simp_all

lemma call_returns:
  assumes "\<And>dir. mkdirSync fs dir = None"
    and "\<And>file data. writeFileSync fs file data = None"
  shows "call fs c (calls, None) = (calls @ [c], None)"
  using assms by (cases c) simp_all

text \<open>
  For a type that is no name of a member of \<open>Object.prototype\<close>, known or not, and
  a file system whose calls all return, the run throws nothing and writes the
  component, the style sheet unless \<open>styled\<close> is \<open>false\<close>, the barrel file and the
  test, to these paths and no other.
\<close>

lemma createComponent_files:
  assumes "case type' options of None \<Rightarrow> True | Some key \<Rightarrow> key \<notin> set prototype_names"
    and "\<And>dir. mkdirSync fs dir = None"
    and "\<And>file data. writeFileSync fs file data = None"
  shows "snd (createComponent cwd fs componentName options) = None
     \<and> written_files (fst (createComponent cwd fs componentName options)) =
         [path_join [path_join [cwd, ''components'', componentName], componentName @ ''.tsx'']]
         @ (if styled options = Some False then []
            else [path_join [path_join [cwd, ''components'', componentName],
                             componentName @ ''.module.css'']])
         @ [path_join [path_join [cwd, ''components'', componentName], ''index.ts''],
            path_join [path_join [cwd, ''components'', componentName],
                       componentName @ ''.test.tsx'']]"
proof -
  define key where "key = (case type' options of None \<Rightarrow> ''simple'' | Some t \<Rightarrow> t)"
  from assms(1) have "key \<notin> set prototype_names"
    by (auto simp: key_def prototype_names_def split: option.splits)
  then obtain template css where own: "or_simple templates key = Own template"
    and css: "or_simple cssTemplates key = Own css" "css \<noteq> []"
    using or_simple_own by blast
  note returns = call_returns [of fs, OF assms(2) assms(3)]
  show ?thesis
    using own css
    by (cases "styled options")
      (simp_all add: createComponent_def Let_def key_def [symmetric] returns
        written_files_append del: call.simps)
qed

subsection \<open>The paths\<close>

text \<open>
  Where the working directory is an absolute path of plain names and the name of
  the component is plain, \<open>path.join\<close> has nothing to normalise, and the files are
  \<open>N.tsx\<close>, \<open>N.module.css\<close>, \<open>index.ts\<close> and \<open>N.test.tsx\<close> in \<open>components/N\<close> under
  the working directory.
\<close>

lemma split_plain:
  "sep \<notin> set w \<Longrightarrow> split (w @ sep # rest) sep = w # split rest sep"
  by (induction w) auto

lemma split_last:
  "sep \<notin> set w \<Longrightarrow> split w sep = [w]"
  by (induction w) auto

lemma split_join:
  assumes "list_all plain_name names" and "names \<noteq> []"
  shows "split (join names ''/'') CHR ''/'' = names"
  using assms
proof (induction names "''/''" rule: join.induct)
  case 1
  then show ?case by simp
next
  case (2 n)
  then show ?case
    by (simp add: plain_name_def split_last)
next
  case (3 n m ms)
  then show ?case
    by (simp add: plain_name_def split_plain)
qed

lemma join_last:
  assumes "list_all plain_name names" and "names \<noteq> []"
  shows "join names ''/'' \<noteq> [] \<and> last (join names ''/'') \<noteq> CHR ''/''"
  using assms
proof (induction names "''/''" rule: join.induct)
  case 1
  then show ?case by simp
next
  case (2 n)
  then have "n \<noteq> []" "CHR ''/'' \<notin> set n"
    by (simp_all add: plain_name_def)
  then have "last n \<noteq> CHR ''/''"
    by (metis last_in_set)
  with \<open>n \<noteq> []\<close> show ?case
    by simp
next
  case (3 n m ms)
  then show ?case
    by simp
qed

lemma join_append:
  "xs \<noteq> [] \<Longrightarrow> ys \<noteq> [] \<Longrightarrow> join (xs @ ys) sep = join xs sep @ sep @ join ys sep"
proof (induction xs sep rule: join.induct)
  case (2 x sep)
  then show ?case by (cases ys) simp_all
qed simp_all

lemma normalizeString_plain:
  "list_all plain_name names \<Longrightarrow> normalizeString allowAboveRoot res names = res @ names"
  by (induction names arbitrary: res) (simp_all add: plain_name_def)

lemma normalize_plain:
  assumes "list_all plain_name names" and "names \<noteq> []"
  shows "normalize (''/'' @ join names ''/'') = ''/'' @ join names ''/''"
    and "normalize (''//'' @ join names ''/'') = ''/'' @ join names ''/''"
  using join_last [OF assms]
  by (simp_all add: normalize_def Let_def split_join [OF assms] normalizeString_plain [OF assms(1)])

lemma path_join_plain:
  assumes "list_all plain_name dirs" and "list_all plain_name names" and "names \<noteq> []"
  shows "path_join ((''/'' @ join dirs ''/'') # names) = ''/'' @ join (dirs @ names) ''/''"
proof -
  have plain: "list_all plain_name (dirs @ names)" and "dirs @ names \<noteq> []"
    using assms by simp_all
  have nonempty: "filter (\<lambda>segment. segment \<noteq> []) names = names"
    using assms(2) by (induction names) (simp_all add: plain_name_def)
  obtain n ns where names: "names = n # ns"
    using assms(3) by (cases names) simp_all
  have "join ((CHR ''/'' # join dirs ''/'') # names) ''/''
      = (if dirs = [] then ''//'' else ''/'') @ join (dirs @ names) ''/''"
    using assms(3) by (cases "dirs = []") (simp_all add: names join_append)
  then have joined:
    "join (filter (\<lambda>segment. segment \<noteq> []) ((''/'' @ join dirs ''/'') # names)) ''/''
      = (if dirs = [] then ''//'' else ''/'') @ join (dirs @ names) ''/''"
    by (simp add: nonempty del: join.simps)
  show ?thesis
    unfolding path_join_def Let_def joined
    using normalize_plain [OF plain \<open>dirs @ names \<noteq> []\<close>]
    by (cases "dirs = []") (simp_all del: join.simps)
qed

lemma plain_name_file:
  assumes "plain_name n"
  shows "plain_name (n @ ''.tsx'')" "plain_name (n @ ''.module.css'')"
    "plain_name (n @ ''.test.tsx'')" "plain_name ''index.ts''" "plain_name ''components''"
  using assms by (cases n; auto simp: plain_name_def Cons_eq_append_conv)+

lemma createComponent_plain_files:
  assumes "case type' options of None \<Rightarrow> True | Some key \<Rightarrow> key \<notin> set prototype_names"
    and "\<And>dir. mkdirSync fs dir = None"
    and "\<And>file data. writeFileSync fs file data = None"
    and "list_all plain_name dirs"
    and "plain_name componentName"
  shows "snd (createComponent (''/'' @ join dirs ''/'') fs componentName options) = None
     \<and> written_files (fst (createComponent (''/'' @ join dirs ''/'') fs componentName options)) =
         [''/'' @ join (dirs @ [''components'', componentName, componentName @ ''.tsx'']) ''/'']
         @ (if styled options = Some False then []
            else [''/'' @ join (dirs @ [''components'', componentName,
                                        componentName @ ''.module.css'']) ''/''])
         @ [''/'' @ join (dirs @ [''components'', componentName, ''index.ts'']) ''/'',
            ''/'' @ join (dirs @ [''components'', componentName, componentName @ ''.test.tsx''])
              ''/'']"
proof -
  note files = plain_name_file [OF assms(5)]
  have dir: "path_join [''/'' @ join dirs ''/'', ''components'', componentName] =
      ''/'' @ join (dirs @ [''components'', componentName]) ''/''"
    using path_join_plain [OF assms(4), of "[''components'', componentName]"] assms(5) files(5)
    by simp
  have inside: "list_all plain_name (dirs @ [''components'', componentName])"
    using assms(4,5) files(5) by simp
  have inner: "path_join [''/'' @ join (dirs @ [''components'', componentName]) ''/'', n] =
      ''/'' @ join (dirs @ [''components'', componentName, n]) ''/''" if "plain_name n" for n
    using path_join_plain [OF inside, of "[n]"] that by simp
  show ?thesis
    using createComponent_files [OF assms(1-3), of "''/'' @ join dirs ''/''" componentName]
    unfolding dir inner [OF files(1)] inner [OF files(2)] inner [OF files(3)] inner [OF files(4)]
    by simp
qed

text \<open>The paths of the runs below, and paths that \<open>path.join\<close> does normalise.\<close>

lemma work_paths:
  "path_join [''/work'', ''components'', ''Button''] = ''/work/components/Button''"
  "path_join [''/work/components/Button'', ''Button.tsx''] = ''/work/components/Button/Button.tsx''"
  "path_join [''/work/components/Button'', ''Button.module.css''] =
     ''/work/components/Button/Button.module.css''"
  "path_join [''/work/components/Button'', ''index.ts''] = ''/work/components/Button/index.ts''"
  "path_join [''/work/components/Button'', ''Button.test.tsx''] =
     ''/work/components/Button/Button.test.tsx''"
  "path_join [''/work'', ''components'', ''$$''] = ''/work/components/$$''"
  "path_join [''/work/components/$$'', ''$$.tsx''] = ''/work/components/$$/$$.tsx''"
  by code_simp+

lemma path_join_normalises:
  "path_join [''/'', ''components'', ''Button''] = ''/components/Button''"
  "path_join [''/work'', ''components'', ''''] = ''/work/components''"
  "path_join [''/work/components'', ''.tsx''] = ''/work/components/.tsx''"
  "path_join [''/work'', ''components'', ''a/b''] = ''/work/components/a/b''"
  "path_join [''/work/components/a/b'', ''a/b.tsx''] = ''/work/components/a/b/a/b.tsx''"
  "path_join [''/work'', ''components'', ''../Button''] = ''/work/Button''"
  "path_join [''work'', ''..'', ''..'', ''x/''] = ''../x/''"
  "path_join ['''', ''''] = ''.''"
  by code_simp+

subsection \<open>Types that the object inherits\<close>

text \<open>
  C6. For the type \<open>constructor\<close>, which the command line passes on like any other
  (\<open>--type=constructor\<close>), \<open>templates[type]\<close> is the constructor that the object
  inherits: the fallback \<open>|| templates.simple\<close> does not apply, the call of
  \<open>replace\<close> throws after the directory was made, and no file is written. So it
  is for every name of a member of \<open>Object.prototype\<close>.
\<close>

theorem createComponent_inherited_type:
  "createComponent ''/work'' no_directory ''Button''
      \<lparr> type' = Some ''constructor'', styled = None, typed = None \<rparr> =
     ([MkdirSync ''/work/components/Button''], Some TypeError)
   \<and> written_files (fst (createComponent ''/work'' no_directory ''Button''
        \<lparr> type' = Some ''constructor'', styled = None, typed = None \<rparr>)) = []
   \<and> parse_options [''--type=constructor''] \<lparr> type' = None, styled = None, typed = None \<rparr> =
       \<lparr> type' = Some ''constructor'', styled = None, typed = None \<rparr>
   \<and> main ''/work'' no_directory [''Button'', ''--type=constructor''] =
       ([MkdirSync ''/work/components/Button''], 1)"
  by (simp add: main_def createComponent_def or_simple_inherited prototype_names_def
      work_paths no_directory_def)

text \<open>
  With such a type no run writes a file, whatever the file system does: the run
  ends with the \<open>TypeError\<close>, or with the error of \<open>mkdirSync\<close>.
\<close>

lemma createComponent_inherited_types:
  assumes "key \<in> set prototype_names"
  shows "snd (createComponent cwd fs componentName
                \<lparr> type' = Some key, styled = s, typed = t \<rparr>) = Some TypeError
           \<or> (\<exists>code. snd (createComponent cwd fs componentName
                \<lparr> type' = Some key, styled = s, typed = t \<rparr>) = Some (SystemError code))"
    and "written_files (fst (createComponent cwd fs componentName
                \<lparr> type' = Some key, styled = s, typed = t \<rparr>)) = []"
  using or_simple_inherited [OF assms]
  by (auto simp: createComponent_def Let_def split: option.splits)

text \<open>The files of a run with the default options, and of one without a style sheet.\<close>

lemma createComponent_default_files:
  "written_files (fst (createComponent ''/work'' no_directory ''Button''
      \<lparr> type' = None, styled = None, typed = None \<rparr>)) =
     [''/work/components/Button/Button.tsx'', ''/work/components/Button/Button.module.css'',
      ''/work/components/Button/index.ts'', ''/work/components/Button/Button.test.tsx'']
   \<and> written_files (fst (createComponent ''/work'' no_directory ''Button''
      \<lparr> type' = Some ''unknown'', styled = Some False, typed = None \<rparr>)) =
     [''/work/components/Button/Button.tsx'',
      ''/work/components/Button/index.ts'', ''/work/components/Button/Button.test.tsx'']"
proof -
  have "case type' \<lparr> type' = None, styled = None, typed = None \<rparr> of
      None \<Rightarrow> True | Some key \<Rightarrow> key \<notin> set prototype_names"
    by simp
  moreover have "case type' \<lparr> type' = Some ''unknown'', styled = Some False, typed = None \<rparr> of
      None \<Rightarrow> True | Some key \<Rightarrow> key \<notin> set prototype_names"
    by (simp add: prototype_names_def)
  moreover have "mkdirSync no_directory dir = None"
    and "writeFileSync no_directory path data = None" for dir path data
    by (simp_all add: no_directory_def)
  ultimately show ?thesis
    using createComponent_files [of "\<lparr> type' = None, styled = None, typed = None \<rparr>"
        no_directory "''/work''" "''Button''"]
      createComponent_files [of "\<lparr> type' = Some ''unknown'', styled = Some False, typed = None \<rparr>"
        no_directory "''/work''" "''Button''"]
    by (simp add: work_paths)
qed

text \<open>
  A name with a slash in it: the directory \<open>components/a/b\<close> is made, the first
  file would go to \<open>components/a/b/a/b.tsx\<close>, below a directory that nobody made,
  and the error of that write ends the run.
\<close>

lemma createComponent_nested_name:
  "createComponent ''/work'' only_made_directories ''a/b''
      \<lparr> type' = None, styled = None, typed = None \<rparr> =
     ([MkdirSync ''/work/components/a/b''], Some (SystemError ''ENOENT''))"
  by code_simp

subsection \<open>The placeholders\<close>

lemma renderComponent_simple_dollars:
  \<open>renderComponent templates_simple ''$$'' =
       ''import React from \'react\';\<newline>''
       @ ''import styles from \'./$.module.css\';\<newline>''
       @ ''\<newline>''
       @ ''export interface $Props {\<newline>''
       @ ''  children?: React.ReactNode;\<newline>''
       @ ''  className?: string;\<newline>''
       @ ''  variant?: \'primary\' | \'secondary\';\<newline>''
       @ ''}\<newline>''
       @ ''\<newline>''
       @ ''export const $: React.FC<$Props> = ({\<newline>''
       @ ''  children,\<newline>''
       @ ''  className,\<newline>''
       @ ''  variant = \'primary'' @ [CHR 0x27] @ ''\<newline>''
       @ ''}) => {\<newline>''
       @ ''  return (\<newline>''
       @ ''    <div className={`${styles.$} ${styles[variant]} ${className || '' @ [CHR 0x27] @ ''\'}`}>\<newline>''
       @ ''      {children}\<newline>''
       @ ''    </div>\<newline>''
       @ ''  );\<newline>''
       @ ''};\<newline>''
       @ ''\<newline>''
       @ ''export default $;''\<close>
  by code_simp

text \<open>
  C7. For the identifier \<open>$$\<close> and the template \<open>simple\<close>, the source that
  \<open>createComponent\<close> writes has no \<open>$$\<close> in it: \<open>replace\<close> reads the two dollar
  signs of its replacement as one, and the component comes out under the name
  \<open>$\<close>.
\<close>

theorem renderComponent_dollar_name:
  \<open>is_identifier ''$$''
   \<and> fst (createComponent ''/work'' no_directory ''$$''
           \<lparr> type' = Some ''simple'', styled = None, typed = None \<rparr>) ! 1 =
       WriteFileSync ''/work/components/$$/$$.tsx'' (renderComponent templates_simple ''$$'')
   \<and> \<not> includes_str (renderComponent templates_simple ''$$'') ''$$''
   \<and> includes_str (renderComponent templates_simple ''$$'') ''export const $: React.FC<$Props>''\<close>
proof (intro conjI)
  show "is_identifier ''$$''"
    by code_simp
  show "fst (createComponent ''/work'' no_directory ''$$''
           \<lparr> type' = Some ''simple'', styled = None, typed = None \<rparr>) ! 1 =
       WriteFileSync ''/work/components/$$/$$.tsx'' (renderComponent templates_simple ''$$'')"
    by (simp add: createComponent_def or_simple_def templates_def cssTemplates_def
        templates_not_empty work_paths no_directory_def Let_def)
  show "\<not> includes_str (renderComponent templates_simple ''$$'') ''$$''"
    unfolding renderComponent_simple_dollars by code_simp
  show "includes_str (renderComponent templates_simple ''$$'') ''export const $: React.FC<$Props>''"
    unfolding renderComponent_simple_dollars by code_simp
qed

subsection \<open>Names without a dollar sign\<close>

text \<open>
  With no dollar sign in the replacement, \<open>replace\<close> is the literal replacement.
\<close>

lemma substitution_plain:
  "CHR ''$'' \<notin> set replacement \<Longrightarrow> substitution matched pre post replacement = replacement"
  by (induction matched pre post replacement rule: substitution.induct) auto

lemma replace_from_plain:
  "CHR ''$'' \<notin> set replacement \<Longrightarrow>
   replace_from (p # ps) replacement seen s = replace_plain (p # ps) replacement s"
  by (induction "p # ps" replacement seen s rule: replace_from.induct)
    (simp_all add: substitution_plain)

text \<open>
  The steps of the scan over a text: a character that is not the first of the
  pattern, the first character of the pattern, and a piece of text that does not
  have that character at all.
\<close>

lemma replace_plain_other:
  "c \<noteq> p \<Longrightarrow>
   replace_plain (p # ps) replacement (c # cs) = c # replace_plain (p # ps) replacement cs"
  by simp

lemma replace_plain_same:
  "replace_plain (p # ps) replacement (p # cs) =
     (if startsWith cs ps
      then replacement @ replace_plain (p # ps) replacement (drop (length ps) cs)
      else p # replace_plain (p # ps) replacement cs)"
  by simp

lemma replace_plain_skip:
  "p \<notin> set t \<Longrightarrow>
   replace_plain (p # ps) replacement (t @ rest) = t @ replace_plain (p # ps) replacement rest"
proof (induction t)
  case Nil
  show ?case by simp
next
  case (Cons c t)
  then show ?case by (cases "t @ rest") auto
qed

lemma includes_str_other:
  "c \<noteq> p \<Longrightarrow> includes_str (c # cs) (p # ps) = includes_str cs (p # ps)"
  by simp

lemma includes_str_same:
  "includes_str (p # cs) (p # ps) = (startsWith cs ps \<or> includes_str cs (p # ps))"
  by simp

lemma includes_str_skip:
  "p \<notin> set t \<Longrightarrow> includes_str (t @ rest) (p # ps) = includes_str rest (p # ps)"
  by (induction t) auto

lemma startsWith_append: "startsWith (x @ rest) x"
  by (induction x) simp_all

lemma includes_str_here: "includes_str (x @ rest) x"
  using startsWith_append [of x rest] by (cases "x @ rest") simp_all

lemma rendered_simple_plain:
  assumes "CHR ''{'' \<notin> set X" and "CHR ''{'' \<notin> set Y"
  shows "\<not> includes_str (replace_plain ''{{componentName}}'' Y
            (replace_plain ''{{ComponentName}}'' X templates_simple)) ''{{ComponentName}}''"
    and "\<not> includes_str (replace_plain ''{{componentName}}'' Y
            (replace_plain ''{{ComponentName}}'' X templates_simple)) ''{{componentName}}''"
    and "includes_str (replace_plain ''{{componentName}}'' Y
            (replace_plain ''{{ComponentName}}'' X templates_simple)) X"
proof -
  show "\<not> includes_str (replace_plain ''{{componentName}}'' Y
      (replace_plain ''{{ComponentName}}'' X templates_simple)) ''{{ComponentName}}''"
    by (simp add: assms templates_simple_def replace_plain_other replace_plain_same
        replace_plain_skip includes_str_other includes_str_same includes_str_skip
        del: replace_plain.simps(2) includes_str.simps(2))
  show "\<not> includes_str (replace_plain ''{{componentName}}'' Y
      (replace_plain ''{{ComponentName}}'' X templates_simple)) ''{{componentName}}''"
    by (simp add: assms templates_simple_def replace_plain_other replace_plain_same
        replace_plain_skip includes_str_other includes_str_same includes_str_skip
        del: replace_plain.simps(2) includes_str.simps(2))
  show "includes_str (replace_plain ''{{componentName}}'' Y
      (replace_plain ''{{ComponentName}}'' X templates_simple)) X"
    by (simp add: assms templates_simple_def replace_plain_other replace_plain_same
        replace_plain_skip includes_str_here del: replace_plain.simps(2))
qed

text \<open>The characters of an identifier, and what \<open>toLowerCase\<close> makes of them.\<close>

lemma identifier_char_no_brace:
  "is_lower c \<or> is_upper c \<or> is_digit c \<or> c = CHR ''_'' \<or> c = CHR ''$'' \<Longrightarrow> c \<noteq> CHR ''{''"
  by (auto simp: is_lower_def is_upper_def is_digit_def)

lemma identifier_no_brace:
  assumes "is_identifier X"
  shows "CHR ''{'' \<notin> set X"
proof (cases X)
  case Nil
  then show ?thesis by simp
next
  case (Cons c cs)
  from assms have "\<forall>x \<in> set X.
      is_lower x \<or> is_upper x \<or> is_digit x \<or> x = CHR ''_'' \<or> x = CHR ''$''"
    unfolding Cons by (auto simp: is_identifier_def list_all_iff is_alnum_def)
  then show ?thesis
    using identifier_char_no_brace by blast
qed

lemma lower_code:
  assumes "(65 \<le> (n :: nat) \<and> n \<le> 90) \<or> (192 \<le> n \<and> n \<le> 222 \<and> n \<noteq> 215)"
  shows "(n + 32) mod 256 \<noteq> 123 \<and> (n + 32) mod 256 \<noteq> 36"
proof -
  from assms have "n + 32 < 256" by linarith
  then have "(n + 32) mod 256 = n + 32" by simp
  with assms show ?thesis by linarith
qed

lemma lower_char_keeps:
  assumes "c \<noteq> CHR ''{''" and "c \<noteq> CHR ''$''"
  shows "lower_char c \<noteq> CHR ''{'' \<and> lower_char c \<noteq> CHR ''$''"
proof (cases "(65 \<le> (of_char c :: nat) \<and> (of_char c :: nat) \<le> 90)
    \<or> (192 \<le> (of_char c :: nat) \<and> (of_char c :: nat) \<le> 222 \<and> (of_char c :: nat) \<noteq> 215)")
  case True
  then have "lower_char c = char_of ((of_char c :: nat) + 32)"
    unfolding lower_char_def Let_def by (rule if_P)
  then have "(of_char (lower_char c) :: nat) = (of_char c + 32) mod 256"
    by (simp only: of_char_of)
  with lower_code [OF True] have code: "(of_char (lower_char c) :: nat) \<noteq> 123"
      "(of_char (lower_char c) :: nat) \<noteq> 36"
    by simp_all
  have brace: "(of_char CHR ''{'' :: nat) = 123" and dollar: "(of_char CHR ''$'' :: nat) = 36"
    by simp_all
  show ?thesis
  proof (intro conjI notI)
    assume "lower_char c = CHR ''{''"
    with brace have "(of_char (lower_char c) :: nat) = 123" by (simp only:)
    with code show False by metis
  next
    assume "lower_char c = CHR ''$''"
    with dollar have "(of_char (lower_char c) :: nat) = 36" by (simp only:)
    with code show False by metis
  qed
next
  case False
  then have "lower_char c = c"
    unfolding lower_char_def Let_def by (rule if_not_P)
  with assms show ?thesis
    by metis
qed

lemma toLowerCase_keeps:
  assumes "CHR ''{'' \<notin> set X" and "CHR ''$'' \<notin> set X"
  shows "CHR ''{'' \<notin> set (toLowerCase X) \<and> CHR ''$'' \<notin> set (toLowerCase X)"
proof -
  have "\<forall>c \<in> set X. lower_char c \<noteq> CHR ''{'' \<and> lower_char c \<noteq> CHR ''$''"
    using assms lower_char_keeps by metis
  then show ?thesis
    unfolding toLowerCase_def set_map by (metis imageE)
qed

text \<open>
  For an identifier without a dollar sign and the template \<open>simple\<close>, the source
  has neither placeholder left and has the name in it: the names with a dollar
  sign are the only ones for which C7 fails on this template.
\<close>

lemma renderComponent_simple_plain_name:
  assumes "is_identifier X" and "CHR ''$'' \<notin> set X"
  shows "\<not> includes_str (renderComponent templates_simple X) ''{{ComponentName}}''
     \<and> \<not> includes_str (renderComponent templates_simple X) ''{{componentName}}''
     \<and> includes_str (renderComponent templates_simple X) X"
proof -
  have brace: "CHR ''{'' \<notin> set X"
    using assms(1) by (rule identifier_no_brace)
  from toLowerCase_keeps [OF brace assms(2)]
  have lower: "CHR ''{'' \<notin> set (toLowerCase X)" "CHR ''$'' \<notin> set (toLowerCase X)"
    by simp_all
  have "renderComponent templates_simple X =
      replace_plain ''{{componentName}}'' (toLowerCase X)
        (replace_plain ''{{ComponentName}}'' X templates_simple)"
    by (simp only: renderComponent_def replace_all_def replace_from_plain [OF assms(2)]
        replace_from_plain [OF lower(2)])
  then show ?thesis
    using rendered_simple_plain [OF brace lower(1)] by (simp only: simp_thms)
qed

end
